theory Spec2Isabelle
  imports Main "HOL-Library.AList"
begin

section \<open>JavaScript values and string helpers\<close>

text \<open>
  The server is TypeScript on Node. The parts of the JavaScript semantics that the
  modelled functions depend on are written out here.

  Numbers. A counter is a JavaScript number, an IEEE double. The numbers of the model are
  the integers among the finite doubles, as an \<open>int\<close>; fractions, \<open>NaN\<close> and the
  infinities are outside it. The sum of two of them is the exact sum rounded to the
  nearest double, the even mantissa on a tie: every integer up to \<open>2 ^ 53\<close> in magnitude
  is a double, beyond that only 53 leading bits are kept.

  Strings are \<open>char list\<close>. The strings that are trimmed or cut are header values, which
  Node decodes as Latin-1, one \<open>char\<close> for one code unit.
\<close>

function bitLength :: "int \<Rightarrow> nat" where
  \<comment> \<open>the number of bits of a positive integer\<close>
  "bitLength n = (if n \<le> 0 then 0 else Suc (bitLength (n div 2)))"
  by pat_completeness auto
termination
  by (relation "measure nat") auto

declare bitLength.simps [simp del]

definition roundDouble :: "int \<Rightarrow> int" where
  \<comment> \<open>the double nearest to an integer (below \<open>2 ^ 1024\<close> in magnitude)\<close>
  "roundDouble x =
     (if \<bar>x\<bar> \<le> 2 ^ 53 then x
      else (let e = bitLength \<bar>x\<bar> - 53;
                q = \<bar>x\<bar> div 2 ^ e;
                r = \<bar>x\<bar> mod 2 ^ e;
                h = 2 ^ (e - 1);
                q' = (if h < r \<or> (r = h \<and> odd q) then q + 1 else q)
            in sgn x * (q' * 2 ^ e)))"

definition jsAdd :: "int \<Rightarrow> int \<Rightarrow> int" where
  \<comment> \<open>\<open>a + b\<close> on numbers\<close>
  "jsAdd a b = roundDouble (a + b)"

definition orZero :: "int option \<Rightarrow> int" where
  \<comment> \<open>\<open>x || 0\<close> for a number: \<open>undefined\<close> and \<open>0\<close> are falsy.\<close>
  "orZero x = (case x of None \<Rightarrow> 0 | Some n \<Rightarrow> if n = 0 then 0 else n)"

text \<open>
  Dictionaries. An object used as a dictionary (\<open>Record<string, number>\<close>) is an
  association list of its own properties in insertion order, as \<open>Object.entries\<close>
  enumerates it. A property holds a number or, once \<open>+\<close> has met something that is not
  a number, a string; such a string is never empty, and no function of the server reads
  its text, so a single value \<open>Text\<close> stands for it. The other values that a parsed
  request body can hold under a key (\<open>null\<close>, booleans, arrays, objects) are outside the
  model.

  Reading \<open>m[k]\<close> gives the own property, else what the object inherits from
  \<open>Object.prototype\<close> under that name (a function, or an object for \<open>__proto__\<close>), else
  \<open>undefined\<close>. The assignment \<open>m[k] = v\<close> overwrites the own property or appends one;
  for \<open>__proto__\<close> without an own property it reaches the inherited setter, which
  ignores a value that is a number or a string.
\<close>

datatype CounterValue = Count int | Text

type_synonym counter_map = "(string \<times> CounterValue) list"

definition inheritedNames :: "string list" where
  \<comment> \<open>the property names of \<open>Object.prototype\<close>\<close>
  "inheritedNames =
     [''constructor'', ''__defineGetter__'', ''__defineSetter__'', ''hasOwnProperty'',
      ''__lookupGetter__'', ''__lookupSetter__'', ''isPrototypeOf'', ''propertyIsEnumerable'',
      ''toString'', ''valueOf'', ''__proto__'', ''toLocaleString'']"

datatype PropertyRead = Missing | Own CounterValue | Inherited

definition getProperty :: "counter_map \<Rightarrow> string \<Rightarrow> PropertyRead" where
  \<comment> \<open>\<open>m[k]\<close>\<close>
  "getProperty m k =
     (case map_of m k of
        Some v \<Rightarrow> Own v
      | None \<Rightarrow> if k \<in> set inheritedNames then Inherited else Missing)"

definition setProperty :: "counter_map \<Rightarrow> string \<Rightarrow> CounterValue \<Rightarrow> counter_map" where
  \<comment> \<open>\<open>m[k] = v\<close>\<close>
  "setProperty m k v =
     (if k = ''__proto__'' \<and> map_of m k = None then m else AList.update k v m)"

fun orZeroPlus :: "PropertyRead \<Rightarrow> CounterValue \<Rightarrow> CounterValue" where
  \<comment> \<open>\<open>(x || 0) + c\<close>: a sum of numbers, and a string as soon as \<open>x\<close> or \<open>c\<close> is not a number\<close>
  "orZeroPlus Missing (Count n) = Count (jsAdd 0 n)"
| "orZeroPlus (Own (Count a)) (Count n) = Count (jsAdd (if a = 0 then 0 else a) n)"
| "orZeroPlus x c = Text"

definition increment :: "counter_map \<Rightarrow> string \<Rightarrow> counter_map" where
  \<comment> \<open>\<open>m[k] = (m[k] || 0) + 1\<close>\<close>
  "increment m k = setProperty m k (orZeroPlus (getProperty m k) (Count 1))"

definition orString :: "string option \<Rightarrow> string \<Rightarrow> string" where
  \<comment> \<open>\<open>x || d\<close> for a string: \<open>undefined\<close> and the empty string are falsy.\<close>
  "orString x d = (case x of None \<Rightarrow> d | Some s \<Rightarrow> if s = [] then d else s)"

definition isWhiteSpace :: "char \<Rightarrow> bool" where
  \<comment> \<open>the white space and line terminators of \<open>String.prototype.trim\<close> below U+0100:
      tab, line feed, vertical tab, form feed, carriage return, space, no-break space\<close>
  "isWhiteSpace c =
     (c \<in> set [CHR 0x09, CHR 0x0A, CHR 0x0B, CHR 0x0C, CHR 0x0D, CHR 0x20, CHR 0xA0])"

definition trim :: "string \<Rightarrow> string" where
  "trim s = rev (dropWhile isWhiteSpace (rev (dropWhile isWhiteSpace s)))"

definition splitCommaFirst :: "string \<Rightarrow> string" where
  \<comment> \<open>\<open>s.split(',')[0]\<close>: the text before the first comma (all of \<open>s\<close> if there is none)\<close>
  "splitCommaFirst s = takeWhile (\<lambda>c. c \<noteq> CHR '','') s"

definition substring0 :: "nat \<Rightarrow> string \<Rightarrow> string" where
  \<comment> \<open>\<open>s.substring(0, n)\<close>\<close>
  "substring0 n s = take n s"

section \<open>Analytics data (firebase-analytics.ts, http-server.ts)\<close>

record ToolCall =
  tool :: string
  timestamp :: string
  clientIp :: string
  userAgent :: string

record AnalyticsData =
  serverStartTime :: string
  totalRequests :: int
  totalToolCalls :: int
  requestsByMethod :: counter_map
  requestsByEndpoint :: counter_map
  toolCalls :: counter_map
  recentToolCalls :: "ToolCall list"
  clientsByIp :: counter_map
  clientsByUserAgent :: counter_map
  hourlyRequests :: counter_map

definition MAX_RECENT_CALLS :: nat where
  "MAX_RECENT_CALLS = 100"

definition initialAnalytics :: "string \<Rightarrow> AnalyticsData" where
  \<comment> \<open>the module-level initialiser; the argument is \<open>new Date().toISOString()\<close> at process start\<close>
  "initialAnalytics startTime =
     \<lparr> serverStartTime = startTime, totalRequests = 0, totalToolCalls = 0,
       requestsByMethod = [], requestsByEndpoint = [], toolCalls = [],
       recentToolCalls = [], clientsByIp = [], clientsByUserAgent = [],
       hourlyRequests = [] \<rparr>"

text \<open>
  The fields of an Express request that the server reads. \<open>reqBody\<close> is the parsed JSON
  body, whose shape depends on the endpoint.
\<close>

record 'b Request =
  reqMethod :: string
  queryApiKey :: "string option"
  hdrSessionId :: "string option"
  hdrForwardedFor :: "string option"
  hdrUserAgent :: "string option"
  reqIp :: "string option"
  reqBody :: 'b

definition clientIpOf :: "('b, 'z) Request_scheme \<Rightarrow> string" where
  \<comment> \<open>\<open>(req.headers['x-forwarded-for'] as string)?.split(',')[0]?.trim() || req.ip || 'unknown'\<close>\<close>
  "clientIpOf req =
     orString (case hdrForwardedFor req of None \<Rightarrow> None
               | Some h \<Rightarrow> Some (trim (splitCommaFirst h)))
       (orString (reqIp req) ''unknown'')"

definition userAgentOf :: "('b, 'z) Request_scheme \<Rightarrow> string" where
  \<comment> \<open>\<open>(req.headers['user-agent'] || 'unknown').substring(0, 50)\<close>\<close>
  "userAgentOf req = substring0 50 (orString (hdrUserAgent req) ''unknown'')"

definition trackRequest :: "string \<Rightarrow> ('b, 'z) Request_scheme \<Rightarrow> string \<Rightarrow> AnalyticsData \<Rightarrow> AnalyticsData" where
  \<comment> \<open>\<open>now\<close> is \<open>new Date().toISOString()\<close> at the time of the call\<close>
  "trackRequest now req endpoint a =
     a\<lparr> totalRequests := jsAdd (totalRequests a) 1,
        requestsByMethod := increment (requestsByMethod a) (reqMethod req),
        requestsByEndpoint := increment (requestsByEndpoint a) endpoint,
        clientsByIp := increment (clientsByIp a) (clientIpOf req),
        clientsByUserAgent := increment (clientsByUserAgent a) (userAgentOf req),
        hourlyRequests := increment (hourlyRequests a) (substring0 13 now) \<rparr>"

definition newToolCall :: "string \<Rightarrow> string \<Rightarrow> ('b, 'z) Request_scheme \<Rightarrow> ToolCall" where
  \<comment> \<open>the object literal \<open>toolCall\<close> built by \<open>trackToolCall\<close>\<close>
  "newToolCall now toolName req =
     \<lparr> tool = toolName, timestamp = now, clientIp = clientIpOf req,
       userAgent = userAgentOf req \<rparr>"

definition unshiftBounded :: "ToolCall \<Rightarrow> ToolCall list \<Rightarrow> ToolCall list" where
  \<comment> \<open>\<open>unshift\<close>, then \<open>pop\<close> when the length exceeds \<open>MAX_RECENT_CALLS\<close>\<close>
  "unshiftBounded c cs =
     (let cs' = c # cs in if length cs' > MAX_RECENT_CALLS then butlast cs' else cs')"

definition trackToolCall :: "string \<Rightarrow> string \<Rightarrow> ('b, 'z) Request_scheme \<Rightarrow> AnalyticsData \<Rightarrow> AnalyticsData" where
  "trackToolCall now toolName req a =
     a\<lparr> totalToolCalls := jsAdd (totalToolCalls a) 1,
        toolCalls := increment (toolCalls a) toolName,
        recentToolCalls := unshiftBounded (newToolCall now toolName req) (recentToolCalls a) \<rparr>"

text \<open>A sequence of \<open>trackToolCall\<close> invocations, each with its clock reading, tool name and request.\<close>

fun trackToolCalls :: "(string \<times> string \<times> 'b Request) list \<Rightarrow> AnalyticsData \<Rightarrow> AnalyticsData" where
  "trackToolCalls [] a = a"
| "trackToolCalls ((now, toolName, req) # rest) a = trackToolCalls rest (trackToolCall now toolName req a)"

section \<open>Rehydration at startup (http-server.ts, firebase-analytics.ts)\<close>

text \<open>
  A stored snapshot is a \<open>Partial<AnalyticsData>\<close> document: every field may be
  missing (\<open>None\<close>). The same shape is the body of \<open>POST /analytics/import\<close>.
\<close>

record PartialAnalytics =
  p_serverStartTime :: "string option"
  p_totalRequests :: "int option"
  p_totalToolCalls :: "int option"
  p_requestsByMethod :: "counter_map option"
  p_requestsByEndpoint :: "counter_map option"
  p_toolCalls :: "counter_map option"
  p_recentToolCalls :: "ToolCall list option"
  p_clientsByIp :: "counter_map option"
  p_clientsByUserAgent :: "counter_map option"
  p_hourlyRequests :: "counter_map option"

definition orEmpty :: "'a list option \<Rightarrow> 'a list" where
  \<comment> \<open>\<open>x || {}\<close> and \<open>x || []\<close>: only \<open>undefined\<close> is falsy, an empty object or array is kept\<close>
  "orEmpty x = (case x of None \<Rightarrow> [] | Some m \<Rightarrow> m)"

definition ensureAnalyticsStructure :: "string \<Rightarrow> PartialAnalytics \<Rightarrow> AnalyticsData" where
  \<comment> \<open>\<open>now\<close> is \<open>new Date().toISOString()\<close> at the time of the call\<close>
  "ensureAnalyticsStructure now d =
     \<lparr> serverStartTime = orString (p_serverStartTime d) now,
       totalRequests = orZero (p_totalRequests d),
       totalToolCalls = orZero (p_totalToolCalls d),
       requestsByMethod = orEmpty (p_requestsByMethod d),
       requestsByEndpoint = orEmpty (p_requestsByEndpoint d),
       toolCalls = orEmpty (p_toolCalls d),
       recentToolCalls = orEmpty (p_recentToolCalls d),
       clientsByIp = orEmpty (p_clientsByIp d),
       clientsByUserAgent = orEmpty (p_clientsByUserAgent d),
       hourlyRequests = orEmpty (p_hourlyRequests d) \<rparr>"

datatype Exception = TypeError | SyntaxError | FsError | Error string | McpError string

text \<open>The module state of firebase-analytics.ts that the modelled functions read.\<close>

record FirebaseState =
  firebaseEnabled :: bool
  analyticsRefSet :: bool

text \<open>
  What \<open>initializeFirebase\<close> meets: no credentials file, a file that cannot be read or
  parsed or that the SDK rejects (an exception inside the \<open>try\<close>), or a usable one.
\<close>

datatype Credentials = CredentialsMissing | CredentialsRejected | CredentialsAccepted

definition initializeFirebase :: "Credentials \<Rightarrow> FirebaseState" where
  "initializeFirebase c =
     (case c of
        CredentialsMissing \<Rightarrow> \<lparr> firebaseEnabled = False, analyticsRefSet = False \<rparr>
      | CredentialsRejected \<Rightarrow> \<lparr> firebaseEnabled = False, analyticsRefSet = False \<rparr>
      | CredentialsAccepted \<Rightarrow> \<lparr> firebaseEnabled = True, analyticsRefSet = True \<rparr>)"

text \<open>
  What \<open>analyticsRef.once('value')\<close> does: it rejects (store unreachable), or it resolves
  with the stored value, \<open>null\<close> when there is no record.
\<close>

datatype RemoteRead = RemoteUnreachable | RemoteValue "PartialAnalytics option"

definition loadFromFirebase :: "FirebaseState \<Rightarrow> RemoteRead \<Rightarrow> PartialAnalytics option" where
  "loadFromFirebase fb remote =
     (if \<not> firebaseEnabled fb \<or> \<not> analyticsRefSet fb then None
      else (case remote of
              RemoteUnreachable \<Rightarrow> None
            | RemoteValue None \<Rightarrow> None
            | RemoteValue (Some d) \<Rightarrow> Some d))"

text \<open>
  What the local file holds at startup: nothing, bytes that \<open>readFileSync\<close> or
  \<open>JSON.parse\<close> reject, the JSON value \<open>null\<close>, or a document.
\<close>

datatype LocalFile = FileAbsent | FileUnreadable | FileNull | FileDocument PartialAnalytics

definition loadAnalyticsTry ::
  "FirebaseState \<Rightarrow> RemoteRead \<Rightarrow> bool \<Rightarrow> LocalFile \<Rightarrow> string \<Rightarrow> AnalyticsData \<Rightarrow> Exception + AnalyticsData" where
  \<comment> \<open>the body of the \<open>try\<close> in \<open>loadAnalytics\<close>; \<open>dirOk\<close> is false when \<open>ensureDataDir\<close> throws\<close>
  "loadAnalyticsTry fb remote dirOk file now a =
     (case loadFromFirebase fb remote of
        Some d \<Rightarrow> Inr (ensureAnalyticsStructure now d)
      | None \<Rightarrow>
          (if \<not> dirOk then Inl FsError
           else (case file of
                   FileAbsent \<Rightarrow> Inr a
                 | FileUnreadable \<Rightarrow> Inl SyntaxError
                 | FileNull \<Rightarrow> Inl TypeError
                 | FileDocument d \<Rightarrow> Inr (ensureAnalyticsStructure now d))))"

definition loadAnalytics ::
  "FirebaseState \<Rightarrow> RemoteRead \<Rightarrow> bool \<Rightarrow> LocalFile \<Rightarrow> string \<Rightarrow> AnalyticsData \<Rightarrow> Exception + AnalyticsData" where
  \<comment> \<open>the \<open>catch\<close> logs the exception and leaves \<open>analytics\<close> as it was; \<open>Inl\<close> would be a rejected promise\<close>
  "loadAnalytics fb remote dirOk file now a =
     (case loadAnalyticsTry fb remote dirOk file now a of
        Inl e \<Rightarrow> Inr a
      | Inr a' \<Rightarrow> Inr a')"

definition startupAnalytics ::
  "Credentials \<Rightarrow> RemoteRead \<Rightarrow> bool \<Rightarrow> LocalFile \<Rightarrow> string \<Rightarrow> string \<Rightarrow> Exception + AnalyticsData" where
  \<comment> \<open>\<open>startServer\<close> up to the end of \<open>await loadAnalytics()\<close>: the module initialiser at
      \<open>startTime\<close>, then \<open>initializeFirebase\<close>, then \<open>loadAnalytics\<close> at \<open>now\<close>\<close>
  "startupAnalytics cred remote dirOk file startTime now =
     loadAnalytics (initializeFirebase cred) remote dirOk file now (initialAnalytics startTime)"

text \<open>
  The loading order in the words of the specification, for comparison with
  \<open>loadAnalytics\<close>: the remote record if the credential is usable, the store reachable
  and the record there; otherwise the local document if the file is there and readable;
  otherwise nothing.
\<close>

definition specRemoteRecord :: "Credentials \<Rightarrow> RemoteRead \<Rightarrow> PartialAnalytics option" where
  "specRemoteRecord cred remote =
     (if cred = CredentialsAccepted
      then (case remote of RemoteUnreachable \<Rightarrow> None | RemoteValue v \<Rightarrow> v)
      else None)"

definition specLocalRecord :: "bool \<Rightarrow> LocalFile \<Rightarrow> PartialAnalytics option" where
  "specLocalRecord dirOk file =
     (if dirOk then (case file of FileDocument d \<Rightarrow> Some d | other \<Rightarrow> None) else None)"

definition specLoad :: "Credentials \<Rightarrow> RemoteRead \<Rightarrow> bool \<Rightarrow> LocalFile \<Rightarrow> PartialAnalytics option" where
  "specLoad cred remote dirOk file =
     (case specRemoteRecord cred remote of
        Some d \<Rightarrow> Some d
      | None \<Rightarrow> specLocalRecord dirOk file)"

section \<open>Saving (http-server.ts, firebase-analytics.ts)\<close>

definition replaceAll :: "char \<Rightarrow> string \<Rightarrow> string \<Rightarrow> string" where
  \<comment> \<open>\<open>s.replace(/c/g, token)\<close> for a single character \<open>c\<close>\<close>
  "replaceAll c token s = concat (map (\<lambda>x. if x = c then token else [x]) s)"

definition sanitizeKey :: "string \<Rightarrow> string" where
  "sanitizeKey key =
     replaceAll (CHR ''/'') ''_slash_''
       (replaceAll (CHR '']'') ''_rb_''
         (replaceAll (CHR ''['') ''_lb_''
           (replaceAll (CHR ''#'') ''_hash_''
             (replaceAll (CHR ''$'') ''_dollar_''
               (replaceAll (CHR ''.'') ''_dot_'' key)))))"




definition sanitizeObjectKeys :: "counter_map option \<Rightarrow> counter_map" where
  \<comment> \<open>the values of a counter map are numbers or strings, so the loop takes its \<open>else\<close> branch;
      \<open>None\<close> is \<open>null\<close> or \<open>undefined\<close>\<close>
  "sanitizeObjectKeys obj =
     (case obj of
        None \<Rightarrow> []
      | Some entries \<Rightarrow> foldl (\<lambda>sanitized (key, v). setProperty sanitized (sanitizeKey key) v) [] entries)"

record FirebaseDoc = AnalyticsData +
  lastUpdated :: int

definition sanitizedData :: "int \<Rightarrow> AnalyticsData \<Rightarrow> FirebaseDoc" where
  \<comment> \<open>the object literal \<open>sanitizedData\<close> of \<open>saveToFirebase\<close>; \<open>dateNow\<close> is \<open>Date.now()\<close>\<close>
  "sanitizedData dateNow a =
     \<lparr> serverStartTime = serverStartTime a,
       totalRequests = totalRequests a,
       totalToolCalls = totalToolCalls a,
       requestsByMethod = sanitizeObjectKeys (Some (requestsByMethod a)),
       requestsByEndpoint = sanitizeObjectKeys (Some (requestsByEndpoint a)),
       toolCalls = sanitizeObjectKeys (Some (toolCalls a)),
       recentToolCalls = recentToolCalls a,
       clientsByIp = sanitizeObjectKeys (Some (clientsByIp a)),
       clientsByUserAgent = sanitizeObjectKeys (Some (clientsByUserAgent a)),
       hourlyRequests = sanitizeObjectKeys (Some (hourlyRequests a)),
       lastUpdated = dateNow \<rparr>"


text \<open>
  The process state: the analytics object, the Firebase module state, and the two
  durable copies as last written by this process.
\<close>

record Persistence =
  analytics :: AnalyticsData
  firebase :: FirebaseState
  diskCopy :: "AnalyticsData option"
  remoteCopy :: "FirebaseDoc option"

text \<open>What the outside world does during one save.\<close>

record SaveEnv =
  fsWritable :: bool
  remoteWritable :: bool
  dateNow :: int

definition saveToFirebase :: "SaveEnv \<Rightarrow> AnalyticsData \<Rightarrow> ('z Persistence_scheme) \<Rightarrow> bool \<times> ('z Persistence_scheme)" where
  "saveToFirebase env a s =
     (if \<not> firebaseEnabled (firebase s) \<or> \<not> analyticsRefSet (firebase s) then (False, s)
      else if remoteWritable env then (True, s\<lparr> remoteCopy := Some (sanitizedData (dateNow env) a) \<rparr>)
      else (False, s))"

definition saveAnalytics :: "SaveEnv \<Rightarrow> ('z Persistence_scheme) \<Rightarrow> ('z Persistence_scheme)" where
  \<comment> \<open>when \<open>ensureDataDir\<close> or \<open>writeFileSync\<close> throws, the \<open>catch\<close> is reached before \<open>saveToFirebase\<close> is called\<close>
  "saveAnalytics env s =
     (if \<not> fsWritable env then s
      else snd (saveToFirebase env (analytics s) (s\<lparr> diskCopy := Some (analytics s) \<rparr>)))"

section \<open>Import (http-server.ts, POST /analytics/import)\<close>

definition mergeCounts :: "counter_map \<Rightarrow> counter_map \<Rightarrow> counter_map" where
  \<comment> \<open>\<open>for (const [k, count] of Object.entries(delta)) m[k] = (m[k] || 0) + count\<close>\<close>
  "mergeCounts m delta =
     foldl (\<lambda>acc (k, c). setProperty acc k (orZeroPlus (getProperty acc k) c)) m delta"

definition countOf :: "counter_map \<Rightarrow> string \<Rightarrow> int" where
  \<comment> \<open>the counter of a key: the number the object has under it as an own property, zero when
      it has none\<close>
  "countOf m k = (case map_of m k of Some (Count n) \<Rightarrow> n | other \<Rightarrow> 0)"

text \<open>
  The conditions under which the merge of a map is plain addition: a key is not a name
  that objects inherit, and a sum is a double without rounding.
\<close>

definition plainKey :: "string \<Rightarrow> bool" where
  "plainKey k = (k \<notin> set inheritedNames)"

definition exactInteger :: "int \<Rightarrow> bool" where
  "exactInteger n = (\<bar>n\<bar> \<le> 2 ^ 53)"

definition additiveOn :: "counter_map \<Rightarrow> counter_map \<Rightarrow> bool" where
  \<comment> \<open>every entry of \<open>delta\<close> has a plain key and a number, the value it meets in \<open>m\<close> is a
      number if there is one, and the sum of the two is exact\<close>
  "additiveOn m delta =
     list_all (\<lambda>(k, c). plainKey k \<and>
                (case c of
                   Text \<Rightarrow> False
                 | Count n \<Rightarrow>
                     (case map_of m k of
                        None \<Rightarrow> exactInteger n
                      | Some Text \<Rightarrow> False
                      | Some (Count a) \<Rightarrow> exactInteger (a + n)))) delta"

definition importInto :: "PartialAnalytics \<Rightarrow> AnalyticsData \<Rightarrow> AnalyticsData" where
  \<comment> \<open>the four \<open>if\<close> statements of the handler, in order; a missing number and \<open>0\<close> are falsy\<close>
  "importInto d a =
     (let a1 = (case p_totalRequests d of None \<Rightarrow> a
                | Some n \<Rightarrow> if n \<noteq> 0 then a\<lparr> totalRequests := jsAdd (totalRequests a) n \<rparr> else a);
          a2 = (case p_totalToolCalls d of None \<Rightarrow> a1
                | Some n \<Rightarrow> if n \<noteq> 0 then a1\<lparr> totalToolCalls := jsAdd (totalToolCalls a1) n \<rparr> else a1);
          a3 = (case p_toolCalls d of None \<Rightarrow> a2
                | Some delta \<Rightarrow> a2\<lparr> toolCalls := mergeCounts (toolCalls a2) delta \<rparr>);
          a4 = (case p_requestsByMethod d of None \<Rightarrow> a3
                | Some delta \<Rightarrow> a3\<lparr> requestsByMethod := mergeCounts (requestsByMethod a3) delta \<rparr>)
      in a4)"

datatype ImportResponse =
    ImportOk int int  \<comment> \<open>status 200 with \<open>currentStats\<close>: \<open>totalRequests\<close>, \<open>totalToolCalls\<close>\<close>
  | ImportFailed  \<comment> \<open>status 400, \<open>Failed to import analytics\<close>\<close>

definition analyticsImport ::
  "SaveEnv \<Rightarrow> (PartialAnalytics option) Request \<Rightarrow> ('z Persistence_scheme) \<Rightarrow> ImportResponse \<times> ('z Persistence_scheme)" where
  \<comment> \<open>a body that is \<open>null\<close> or \<open>undefined\<close> (\<open>None\<close>) makes the first property read throw a \<open>TypeError\<close>\<close>
  "analyticsImport env req s =
     (case reqBody req of
        None \<Rightarrow> (ImportFailed, s)
      | Some d \<Rightarrow>
          (let s' = saveAnalytics env (s\<lparr> analytics := importInto d (analytics s) \<rparr>)
           in (ImportOk (totalRequests (analytics s')) (totalToolCalls (analytics s')), s')))"


section \<open>Tools (http-server.ts \<open>registerTools\<close>, index.ts \<open>createServer\<close>)\<close>

text \<open>
  Tool arguments are JSON. A JSON number is modelled as an integer; no modelled function
  computes with one. Reading a property that an object does not have gives \<open>undefined\<close>,
  which is \<open>None\<close>.
\<close>

datatype JsonValue =
    JNull | JBool bool | JNum int | JStr string
  | JArr "JsonValue list" | JObj "(string \<times> JsonValue) list"

type_synonym Arguments = "(string \<times> JsonValue) list"

definition property :: "Arguments \<Rightarrow> string \<Rightarrow> JsonValue option" where
  "property args k = map_of args k"

fun truthy :: "JsonValue option \<Rightarrow> bool" where
  "truthy None = False"
| "truthy (Some JNull) = False"
| "truthy (Some (JBool b)) = b"
| "truthy (Some (JNum n)) = (n \<noteq> 0)"
| "truthy (Some (JStr s)) = (s \<noteq> [])"
| "truthy (Some (JArr xs)) = True"
| "truthy (Some (JObj kvs)) = True"

text \<open>The catalogue that the \<open>ListToolsRequestSchema\<close> handler returns (descriptions left out).\<close>

record ParameterSchema =
  paramName :: string
  allowedValues :: "string list option"

record ToolDefinition =
  toolName :: string
  properties :: "ParameterSchema list"
  required :: "string list"

definition trainLineEnum :: "string list" where
  "trainLineEnum = [''CCL'', ''CEL'', ''CGL'', ''DTL'', ''EWL'', ''NEL'', ''NSL'', ''BPL'', ''SLRT'', ''PLRT'', ''TEL'']"

definition listTools :: "ToolDefinition list" where
  "listTools =
     [ \<lparr> toolName = ''bus_arrival'',
         properties = [\<lparr> paramName = ''busStopCode'', allowedValues = None \<rparr>,
                       \<lparr> paramName = ''serviceNo'', allowedValues = None \<rparr>],
         required = [''busStopCode''] \<rparr>,
       \<lparr> toolName = ''station_crowding'',
         properties = [\<lparr> paramName = ''trainLine'', allowedValues = Some trainLineEnum \<rparr>],
         required = [''trainLine''] \<rparr>,
       \<lparr> toolName = ''train_alerts'', properties = [], required = [] \<rparr>,
       \<lparr> toolName = ''carpark_availability'', properties = [], required = [] \<rparr>,
       \<lparr> toolName = ''travel_times'', properties = [], required = [] \<rparr>,
       \<lparr> toolName = ''traffic_incidents'', properties = [], required = [] \<rparr>,
       \<lparr> toolName = ''station_crowd_forecast'',
         properties = [\<lparr> paramName = ''trainLine'', allowedValues = Some trainLineEnum \<rparr>],
         required = [''trainLine''] \<rparr> ]"

definition describe :: "string \<Rightarrow> ToolDefinition option" where
  "describe name = find (\<lambda>d. toolName d = name) listTools"

text \<open>
  One \<open>axios.get\<close>: the URL, the \<open>params\<close> object as the code builds it (\<open>None\<close> when the
  call passes none; a parameter whose value is \<open>undefined\<close> is in the object, and axios
  leaves it out of the query string) and the \<open>AccountKey\<close> header.
\<close>

record UpstreamRequest =
  url :: string
  params :: "(string \<times> JsonValue option) list option"
  accountKey :: string

text \<open>
  What the call does: it resolves, and \<open>Responded t\<close> carries
  \<open>JSON.stringify(response.data, null, 2)\<close>; or it rejects with an error that
  \<open>axios.isAxiosError\<close> recognises, and \<open>AxiosError response msg\<close> carries
  \<open>error.response\<close> and \<open>error.message\<close>; or it rejects with anything else.
  \<open>error.response\<close> is there when the upstream answered with an error status, and
  missing (\<open>None\<close>) when no answer came: name resolution, connection, timeout.
  Of a response the model keeps the status and \<open>data?.Message\<close> (\<open>None\<close> when that is
  \<open>null\<close> or \<open>undefined\<close>, otherwise its text in a template literal).
\<close>

record ErrorResponse =
  responseStatus :: nat
  responseMessage :: "string option"

datatype UpstreamOutcome =
    Responded string
  | AxiosError "ErrorResponse option" string
  | OtherFailure Exception

definition upstreamMessage :: "ErrorResponse option \<Rightarrow> string option" where
  \<comment> \<open>\<open>error.response?.data?.Message\<close>\<close>
  "upstreamMessage response = (case response of None \<Rightarrow> None | Some r \<Rightarrow> responseMessage r)"

type_synonym Upstream = "UpstreamRequest \<Rightarrow> UpstreamOutcome"

datatype ContentPart = TextContent string

record ToolResult =
  content :: "ContentPart list"
  isError :: "bool option"

text \<open>
  A handler's outcome is the list of upstream calls it made, and either the result it
  returned or the exception it threw.
\<close>

type_synonym Outcome = "UpstreamRequest list \<times> (Exception + ToolResult)"

definition nullish :: "string option \<Rightarrow> string \<Rightarrow> string" where
  \<comment> \<open>\<open>x ?? d\<close>\<close>
  "nullish x d = (case x of None \<Rightarrow> d | Some v \<Rightarrow> v)"

definition makeRequest :: "Upstream \<Rightarrow> string \<Rightarrow> string \<Rightarrow> (string \<times> JsonValue option) list option \<Rightarrow> Outcome" where
  "makeRequest upstream ltaApiKey u ps =
     (let rq = \<lparr> url = u, params = ps, accountKey = ltaApiKey \<rparr>
      in ([rq],
          (case upstream rq of
             Responded t \<Rightarrow> Inr \<lparr> content = [TextContent t], isError = None \<rparr>
           | AxiosError response msg \<Rightarrow>
               Inr \<lparr> content = [TextContent (''LTA API error: '' @ nullish (upstreamMessage response) msg)],
                     isError = Some True \<rparr>
           | OtherFailure e \<Rightarrow> Inl e)))"

definition busArrivalParams :: "Arguments \<Rightarrow> (string \<times> JsonValue option) list" where
  \<comment> \<open>\<open>{ BusStopCode: busStopCode, ...(serviceNo && { ServiceNo: serviceNo }) }\<close>\<close>
  "busArrivalParams args =
     (''BusStopCode'', property args ''busStopCode'') #
     (if truthy (property args ''serviceNo'') then [(''ServiceNo'', property args ''serviceNo'')] else [])"

definition trainLineParams :: "Arguments \<Rightarrow> (string \<times> JsonValue option) list" where
  \<comment> \<open>\<open>{ TrainLine: trainLine }\<close>\<close>
  "trainLineParams args = [(''TrainLine'', property args ''trainLine'')]"

definition baseUrl :: string where
  "baseUrl = ''https://datamall2.mytransport.sg/ltaodataservice/''"

definition dispatch :: "Upstream \<Rightarrow> string \<Rightarrow> Exception \<Rightarrow> string \<Rightarrow> Arguments option \<Rightarrow> Outcome" where
  \<comment> \<open>the \<open>switch\<close> on the tool name, which both servers have; \<open>unknown\<close> is what the
      \<open>default\<close> branch throws. Destructuring \<open>undefined\<close> arguments throws a \<open>TypeError\<close>.\<close>
  "dispatch upstream ltaApiKey unknown name args =
     (if name = ''bus_arrival'' then
        (case args of None \<Rightarrow> ([], Inl TypeError)
         | Some a \<Rightarrow> makeRequest upstream ltaApiKey (baseUrl @ ''v3/BusArrival'') (Some (busArrivalParams a)))
      else if name = ''station_crowding'' then
        (case args of None \<Rightarrow> ([], Inl TypeError)
         | Some a \<Rightarrow> makeRequest upstream ltaApiKey (baseUrl @ ''PCDRealTime'') (Some (trainLineParams a)))
      else if name = ''train_alerts'' then
        makeRequest upstream ltaApiKey (baseUrl @ ''TrainServiceAlerts'') None
      else if name = ''carpark_availability'' then
        makeRequest upstream ltaApiKey (baseUrl @ ''CarParkAvailabilityv2'') None
      else if name = ''travel_times'' then
        makeRequest upstream ltaApiKey (baseUrl @ ''EstTravelTimes'') None
      else if name = ''traffic_incidents'' then
        makeRequest upstream ltaApiKey (baseUrl @ ''TrafficIncidents'') None
      else if name = ''station_crowd_forecast'' then
        (case args of None \<Rightarrow> ([], Inl TypeError)
         | Some a \<Rightarrow> makeRequest upstream ltaApiKey (baseUrl @ ''PCDForecast'') (Some (trainLineParams a)))
      else ([], Inl unknown))"

definition callToolHandler :: "Upstream \<Rightarrow> string \<Rightarrow> string \<Rightarrow> Arguments option \<Rightarrow> Outcome" where
  \<comment> \<open>http-server.ts: the \<open>CallToolRequestSchema\<close> handler that \<open>registerTools\<close> installs\<close>
  "callToolHandler upstream ltaApiKey name args =
     dispatch upstream ltaApiKey (Error (''Unknown tool: '' @ name)) name args"

definition stdioCallToolHandler :: "Upstream \<Rightarrow> string \<Rightarrow> string \<Rightarrow> Arguments option \<Rightarrow> Outcome" where
  \<comment> \<open>index.ts: each case carries the \<open>try\<close>/\<open>catch\<close> that http-server.ts factors into
      \<open>makeRequest\<close>; the \<open>default\<close> branch throws an \<open>McpError\<close>\<close>
  "stdioCallToolHandler upstream ltaApiKey name args =
     dispatch upstream ltaApiKey (McpError (''Unknown tool: '' @ name)) name args"

definition createServer :: "string option \<Rightarrow> Exception + string" where
  \<comment> \<open>index.ts: the credential the handlers close over, from \<open>process.env.LTA_API_KEY\<close>\<close>
  "createServer env =
     (if orString env [] = [] then Inl (Error ''LTA_API_KEY environment variable is required'')
      else Inr (orString env []))"

text \<open>
  The validation rule in the words of the specification, for comparison with the
  handlers: every required parameter is present, and every supplied parameter is a
  string that belongs to the allowed values when the parameter has an enumeration.
\<close>

definition specParametersValid :: "ToolDefinition \<Rightarrow> Arguments \<Rightarrow> bool" where
  "specParametersValid d args =
     (list_all (\<lambda>r. property args r \<noteq> None) (required d) \<and>
      list_all (\<lambda>p. case property args (paramName p) of
                       None \<Rightarrow> True
                     | Some (JStr v) \<Rightarrow> (case allowedValues p of None \<Rightarrow> True | Some vs \<Rightarrow> v \<in> set vs)
                     | Some other \<Rightarrow> False) (properties d))"

section \<open>Sessions and the /mcp endpoint (http-server.ts)\<close>

definition DEFAULT_LTA_API_KEY :: "string option \<Rightarrow> string" where
  \<comment> \<open>\<open>process.env.LTA_API_KEY || ''\<close>\<close>
  "DEFAULT_LTA_API_KEY env = orString env []"

definition getApiKey :: "string \<Rightarrow> ('b, 'z) Request_scheme \<Rightarrow> string" where
  \<comment> \<open>\<open>userKey || DEFAULT_LTA_API_KEY\<close>\<close>
  "getApiKey defaultKey req = orString (queryApiKey req) defaultKey"

text \<open>
  What the server creates for a new session: an MCP server whose handlers close over
  \<open>ltaApiKey\<close>, and a transport whose \<open>onclose\<close> closes over the \<open>mcp-session-id\<close> header
  of the request that created it. \<open>closed\<close> is the transport's own state.
\<close>

record Transport =
  boundApiKey :: string
  closeTarget :: "string option"
  closed :: bool

type_synonym Transports = "(string \<times> Transport) list"

record ServerState = Persistence +
  transports :: Transports

definition lookupSession :: "string option \<Rightarrow> Transports \<Rightarrow> Transport option" where
  \<comment> \<open>\<open>sessionId && transports.has(sessionId)\<close>, then \<open>transports.get(sessionId)\<close>\<close>
  "lookupSession sid ts =
     (case sid of None \<Rightarrow> None | Some i \<Rightarrow> if i = [] then None else map_of ts i)"

definition onclose :: "Transport \<Rightarrow> Transports \<Rightarrow> Transports" where
  \<comment> \<open>\<open>if (sessionId) transports.delete(sessionId)\<close>\<close>
  "onclose t ts =
     (case closeTarget t of None \<Rightarrow> ts | Some i \<Rightarrow> if i = [] then ts else AList.delete i ts)"

text \<open>
  The body of a request to \<open>/mcp\<close>, as far as the server's behaviour depends on it.
\<close>

datatype McpMessage =
    InitializeRequest
  | CallToolRequest string "Arguments option"
  | ListToolsRequest
  | OtherMessage

datatype McpResponse =
    ConfigurationError  \<comment> \<open>status 500, \<open>Server configuration error: No LTA API key available\<close>\<close>
  | NoActiveSession  \<comment> \<open>status 400, \<open>No active session. Send a POST request first.\<close>\<close>
  | TransportRejected  \<comment> \<open>an error status from the SDK transport\<close>
  | SessionInitialized string
  | ToolsListed "ToolDefinition list"
  | ToolReturned ToolResult
  | ToolFailed Exception  \<comment> \<open>a JSON-RPC error response\<close>
  | SessionTerminated
  | StreamOpened
  | Accepted


definition closeTransport :: "string option \<Rightarrow> Transport \<Rightarrow> Transports \<Rightarrow> Transports" where
  \<comment> \<open>\<open>transport.close()\<close> on the transport found under \<open>sid\<close>: the transport is closed,
      then its \<open>onclose\<close> runs\<close>
  "closeTransport sid t ts =
     onclose t (case sid of None \<Rightarrow> ts | Some i \<Rightarrow> AList.update i (t\<lparr> closed := True \<rparr>) ts)"

text \<open>
  \<open>transport.handleRequest\<close> belongs to the MCP SDK. Its model: an initialize request
  on a transport without a session takes the generated id \<open>freshId\<close> and calls
  \<open>onsessioninitialized\<close>; every other message needs the session and goes to the
  handler registered for it; \<open>DELETE\<close> closes the transport, which calls \<open>onclose\<close>;
  \<open>GET\<close> opens the event stream; a transport that has been closed answers with an
  error status.
\<close>

definition handleRequest ::
  "Upstream \<Rightarrow> string \<Rightarrow> bool \<Rightarrow> Transport \<Rightarrow> (McpMessage, 'y) Request_scheme \<Rightarrow> Transports
     \<Rightarrow> McpResponse \<times> UpstreamRequest list \<times> Transports" where
  "handleRequest upstream freshId established t req ts =
     (if closed t then (TransportRejected, [], ts)
      else if reqMethod req = ''POST'' then
        (case reqBody req of
           InitializeRequest \<Rightarrow>
             if established then (TransportRejected, [], ts)
             else (SessionInitialized freshId, [], AList.update freshId t ts)
         | CallToolRequest name args \<Rightarrow>
             if \<not> established then (TransportRejected, [], ts)
             else (case callToolHandler upstream (boundApiKey t) name args of
                     (calls, Inr r) \<Rightarrow> (ToolReturned r, calls, ts)
                   | (calls, Inl e) \<Rightarrow> (ToolFailed e, calls, ts))
         | ListToolsRequest \<Rightarrow>
             if \<not> established then (TransportRejected, [], ts) else (ToolsListed listTools, [], ts)
         | OtherMessage \<Rightarrow>
             if \<not> established then (TransportRejected, [], ts) else (Accepted, [], ts))
      else if reqMethod req = ''GET'' then
        (if established then (StreamOpened, [], ts) else (TransportRejected, [], ts))
      else if reqMethod req = ''DELETE'' then
        (if established then (SessionTerminated, [], closeTransport (hdrSessionId req) t ts)
         else (TransportRejected, [], ts))
      else (TransportRejected, [], ts))"

definition mcpEndpoint ::
  "string \<Rightarrow> Upstream \<Rightarrow> string \<Rightarrow> string \<Rightarrow> McpMessage Request \<Rightarrow> ServerState
     \<Rightarrow> McpResponse \<times> UpstreamRequest list \<times> ServerState" where
  \<comment> \<open>\<open>app.all('/mcp', ...)\<close>; \<open>now\<close> is the clock reading of \<open>trackRequest\<close>\<close>
  "mcpEndpoint defaultKey upstream now freshId req s =
     (let s1 = s\<lparr> analytics := trackRequest now req ''/mcp'' (analytics s) \<rparr>;
          ltaApiKey = getApiKey defaultKey req
      in if ltaApiKey = [] then (ConfigurationError, [], s1)
         else (case lookupSession (hdrSessionId req) (transports s1) of
                 Some t \<Rightarrow>
                   (case handleRequest upstream freshId True t req (transports s1) of
                      (resp, calls, ts) \<Rightarrow> (resp, calls, s1\<lparr> transports := ts \<rparr>))
               | None \<Rightarrow>
                   if reqMethod req = ''GET'' \<or> reqMethod req = ''DELETE'' then (NoActiveSession, [], s1)
                   else (let t = \<lparr> boundApiKey = ltaApiKey, closeTarget = hdrSessionId req,
                                     closed = False \<rparr>
                         in case handleRequest upstream freshId False t req (transports s1) of
                              (resp, calls, ts) \<Rightarrow> (resp, calls, s1\<lparr> transports := ts \<rparr>))))"

text \<open>The state of a process that has just started, before \<open>loadAnalytics\<close>.\<close>

definition freshServer :: "string \<Rightarrow> ServerState" where
  "freshServer startTime =
     \<lparr> analytics = initialAnalytics startTime,
       firebase = \<lparr> firebaseEnabled = False, analyticsRefSet = False \<rparr>,
       diskCopy = None, remoteCopy = None, transports = [] \<rparr>"

text \<open>An upstream that gives every call the same outcome.\<close>

definition constantUpstream :: "UpstreamOutcome \<Rightarrow> Upstream" where
  "constantUpstream outcome rq = outcome"

text \<open>
  The scenario of the specification: a client opens a session on a fresh server that
  has a default credential, then invokes \<open>bus_arrival\<close> for bus stop 83139, and the
  upstream answers 200 with an empty list of services.
\<close>

definition initializeRequest :: "McpMessage Request" where
  "initializeRequest =
     \<lparr> reqMethod = ''POST'', queryApiKey = None, hdrSessionId = None, hdrForwardedFor = None,
       hdrUserAgent = None, reqIp = None, reqBody = InitializeRequest \<rparr>"

definition busArrivalRequest :: "McpMessage Request" where
  "busArrivalRequest =
     \<lparr> reqMethod = ''POST'', queryApiKey = None, hdrSessionId = Some ''session-1'',
       hdrForwardedFor = None, hdrUserAgent = None, reqIp = None,
       reqBody = CallToolRequest ''bus_arrival'' (Some [(''busStopCode'', JStr ''83139'')]) \<rparr>"

definition servicesText :: string where
  \<comment> \<open>\<open>JSON.stringify\<close> of the body with the empty \<open>Services\<close> list, indented by 2;
      \<open>CHR 0x22\<close> is the double quote and \<open>CHR 0x0A\<close> the line feed\<close>
  "servicesText =
     ''{'' @ [CHR 0x0A] @ ''  '' @ [CHR 0x22] @ ''Services'' @ [CHR 0x22] @ '': []'' @ [CHR 0x0A] @ ''}''"

definition servicesResponse :: UpstreamOutcome where
  "servicesResponse = Responded servicesText"

definition scenarioSession :: ServerState where
  "scenarioSession =
     snd (snd (mcpEndpoint ''DEFAULT-KEY'' (constantUpstream servicesResponse)
                 ''2024-01-01T00:00:01.000Z'' ''session-1'' initializeRequest
                 (freshServer ''2024-01-01T00:00:00.000Z'')))"

definition scenarioBusArrival :: "McpResponse \<times> UpstreamRequest list \<times> ServerState" where
  "scenarioBusArrival =
     mcpEndpoint ''DEFAULT-KEY'' (constantUpstream servicesResponse)
       ''2024-01-01T00:00:02.000Z'' ''session-2'' busArrivalRequest scenarioSession"


definition busArrivalRequestWithKey :: "McpMessage Request" where
  \<comment> \<open>the invocation of the scenario, sent to \<open>/mcp?apiKey=USER-KEY\<close>\<close>
  "busArrivalRequestWithKey = busArrivalRequest\<lparr> queryApiKey := Some ''USER-KEY'' \<rparr>"



text \<open>A stored snapshot whose history has 102 records, and nothing else.\<close>

definition oversizedDocument :: PartialAnalytics where
  "oversizedDocument =
     \<lparr> p_serverStartTime = None, p_totalRequests = None, p_totalToolCalls = None,
       p_requestsByMethod = None, p_requestsByEndpoint = None, p_toolCalls = None,
       p_recentToolCalls =
         Some (replicate 102 \<lparr> tool = ''bus_arrival'', timestamp = ''2023-12-31T23:59:59.000Z'',
                                 clientIp = ''unknown'', userAgent = ''unknown'' \<rparr>),
       p_clientsByIp = None, p_clientsByUserAgent = None, p_hourlyRequests = None \<rparr>"

section \<open>The rolling history\<close>

lemma unshiftBounded_take:
  "length cs \<le> MAX_RECENT_CALLS \<Longrightarrow> unshiftBounded c cs = take MAX_RECENT_CALLS (c # cs)"
  by (cases "length cs = MAX_RECENT_CALLS")
     (simp_all add: unshiftBounded_def Let_def butlast_conv_take)

lemma recent_trackToolCall:
  "recentToolCalls (trackToolCall now n r a) = unshiftBounded (newToolCall now n r) (recentToolCalls a)"
  by (simp add: trackToolCall_def)

lemma take_append_take: "take n (xs @ take n ys) = take n (xs @ ys)"
  by (simp add: min_def)

lemma recent_trackToolCalls:
  "length (recentToolCalls a) \<le> MAX_RECENT_CALLS \<Longrightarrow>
   recentToolCalls (trackToolCalls cs a) =
     take MAX_RECENT_CALLS (rev (map (\<lambda>(now, n, r). newToolCall now n r) cs) @ recentToolCalls a)"
proof (induction cs arbitrary: a)
  case Nil
  then show ?case by simp
next
  case (Cons c cs)
  obtain now n r where c: "c = (now, n, r)" by (cases c)
  let ?a = "trackToolCall now n r a"
  have step: "recentToolCalls ?a = take MAX_RECENT_CALLS (newToolCall now n r # recentToolCalls a)"
    using Cons.prems by (simp add: recent_trackToolCall unshiftBounded_take)
  then have "length (recentToolCalls ?a) \<le> MAX_RECENT_CALLS" by simp
  from Cons.IH [OF this] have
    "recentToolCalls (trackToolCalls cs ?a) =
       take MAX_RECENT_CALLS (rev (map (\<lambda>(now, n, r). newToolCall now n r) cs)
         @ take MAX_RECENT_CALLS (newToolCall now n r # recentToolCalls a))"
    by (simp only: step)
  then show ?case
    by (simp only: take_append_take c trackToolCalls.simps list.map rev.simps
          append_assoc append_Cons append_Nil prod.case)
qed

text \<open>
  C7 as stated fails for a history that starts above the bound: rehydration keeps a
  stored history as it is, and \<open>trackToolCall\<close> removes one record for each record it
  adds. A server started on a stored snapshot with 102 records has 102 records after
  the next tool call.
\<close>

theorem rehydrated_history_counterexample:
  "startupAnalytics CredentialsMissing RemoteUnreachable True (FileDocument oversizedDocument)
     ''2024-01-01T00:00:00.000Z'' ''2024-01-01T00:00:01.000Z'' =
     Inr (ensureAnalyticsStructure ''2024-01-01T00:00:01.000Z'' oversizedDocument) \<and>
   length (recentToolCalls (ensureAnalyticsStructure ''2024-01-01T00:00:01.000Z'' oversizedDocument)) = 102 \<and>
   length (recentToolCalls
     (trackToolCall ''2024-01-01T00:00:02.000Z'' ''bus_arrival'' busArrivalRequest
        (ensureAnalyticsStructure ''2024-01-01T00:00:01.000Z'' oversizedDocument))) = 102 \<and>
   MAX_RECENT_CALLS = 100"
proof -
  have start: "startupAnalytics CredentialsMissing RemoteUnreachable True (FileDocument oversizedDocument)
     ''2024-01-01T00:00:00.000Z'' ''2024-01-01T00:00:01.000Z'' =
     Inr (ensureAnalyticsStructure ''2024-01-01T00:00:01.000Z'' oversizedDocument)"
    by (simp add: startupAnalytics_def loadAnalytics_def loadAnalyticsTry_def loadFromFirebase_def
          initializeFirebase_def)
  have loaded: "recentToolCalls (ensureAnalyticsStructure ''2024-01-01T00:00:01.000Z'' oversizedDocument) =
      replicate 102 \<lparr> tool = ''bus_arrival'', timestamp = ''2023-12-31T23:59:59.000Z'',
                        clientIp = ''unknown'', userAgent = ''unknown'' \<rparr>"
    by (simp add: ensureAnalyticsStructure_def oversizedDocument_def orEmpty_def)
  have after: "length (recentToolCalls
     (trackToolCall ''2024-01-01T00:00:02.000Z'' ''bus_arrival'' busArrivalRequest
        (ensureAnalyticsStructure ''2024-01-01T00:00:01.000Z'' oversizedDocument))) = 102"
    by (simp add: recent_trackToolCall loaded unshiftBounded_def Let_def MAX_RECENT_CALLS_def)
  from start loaded after show ?thesis
    by (simp add: MAX_RECENT_CALLS_def)
qed

text \<open>
  C7 (amended). The rolling tool-invocation history is bounded by
  \<open>MAX_RECENT_CALLS = 100\<close> when it starts within the bound, as the empty history of a
  fresh server does. Then, after any sequence of \<open>trackToolCall\<close> invocations, the
  history has at most 100 records and is the first 100 of: the records created by the
  invocations, most recent first, followed by the earlier history. Once 100 or more
  records have been added, it is exactly the newest 100 of them, most recent first; every
  record in it is as it was created.
\<close>

theorem recent_history_bounded:
  assumes "length (recentToolCalls a) \<le> MAX_RECENT_CALLS"
  shows "MAX_RECENT_CALLS = 100 \<and>
         length (recentToolCalls (trackToolCalls cs a)) \<le> MAX_RECENT_CALLS \<and>
         recentToolCalls (trackToolCalls cs a) =
           take MAX_RECENT_CALLS (rev (map (\<lambda>(now, n, r). newToolCall now n r) cs) @ recentToolCalls a) \<and>
         (MAX_RECENT_CALLS \<le> length cs \<longrightarrow>
            recentToolCalls (trackToolCalls cs a) =
              rev (map (\<lambda>(now, n, r). newToolCall now n r) (drop (length cs - MAX_RECENT_CALLS) cs)))"
proof -
  let ?new = "map (\<lambda>(now, n, r). newToolCall now n r) cs"
  have eq: "recentToolCalls (trackToolCalls cs a) = take MAX_RECENT_CALLS (rev ?new @ recentToolCalls a)"
    by (rule recent_trackToolCalls [OF assms])
  have len: "length (recentToolCalls (trackToolCalls cs a)) \<le> MAX_RECENT_CALLS"
    by (simp add: eq)
  have full: "recentToolCalls (trackToolCalls cs a) =
                rev (map (\<lambda>(now, n, r). newToolCall now n r) (drop (length cs - MAX_RECENT_CALLS) cs))"
    if "MAX_RECENT_CALLS \<le> length cs"
    using that by (simp add: eq take_rev drop_map)
  show ?thesis
    using eq len full by (simp add: MAX_RECENT_CALLS_def)
qed

theorem recent_history_bounded_witness:
  "length (recentToolCalls (initialAnalytics ''2024-01-01T00:00:00.000Z'')) \<le> MAX_RECENT_CALLS \<and>
   MAX_RECENT_CALLS \<le> length (map (\<lambda>i. (replicate i (CHR ''x''), ''bus_arrival'',
       \<lparr> reqMethod = ''POST'', queryApiKey = None, hdrSessionId = None, hdrForwardedFor = None,
         hdrUserAgent = None, reqIp = None, reqBody = () \<rparr>)) [0..<101]) \<and>
   recentToolCalls (trackToolCalls (map (\<lambda>i. (replicate i (CHR ''x''), ''bus_arrival'',
       \<lparr> reqMethod = ''POST'', queryApiKey = None, hdrSessionId = None, hdrForwardedFor = None,
         hdrUserAgent = None, reqIp = None, reqBody = () \<rparr>)) [0..<101])
       (initialAnalytics ''2024-01-01T00:00:00.000Z'')) =
     rev (map (\<lambda>i. \<lparr> tool = ''bus_arrival'', timestamp = replicate i (CHR ''x''),
                      clientIp = ''unknown'', userAgent = ''unknown'' \<rparr>) [1..<101])"
proof -
  let ?a = "initialAnalytics ''2024-01-01T00:00:00.000Z''"
  let ?r = "\<lparr> reqMethod = ''POST'', queryApiKey = None, hdrSessionId = None, hdrForwardedFor = None,
             hdrUserAgent = None, reqIp = None, reqBody = () \<rparr>"
  let ?cs = "map (\<lambda>i. (replicate i (CHR ''x''), ''bus_arrival'', ?r)) [0..<101]"
  have h: "length (recentToolCalls ?a) \<le> MAX_RECENT_CALLS"
    by (simp add: initialAnalytics_def)
  have l: "MAX_RECENT_CALLS \<le> length ?cs"
    by (simp add: MAX_RECENT_CALLS_def)
  have d: "drop (length ?cs - MAX_RECENT_CALLS) ?cs =
             map (\<lambda>i. (replicate i (CHR ''x''), ''bus_arrival'', ?r)) [1..<101]"
    by (simp add: MAX_RECENT_CALLS_def drop_map)
  have n: "newToolCall now ''bus_arrival'' ?r =
             \<lparr> tool = ''bus_arrival'', timestamp = now, clientIp = ''unknown'', userAgent = ''unknown'' \<rparr>" for now
    by (simp add: newToolCall_def clientIpOf_def userAgentOf_def orString_def substring0_def)
  from recent_history_bounded [OF h, of ?cs] l
  have "recentToolCalls (trackToolCalls ?cs ?a) =
          rev (map (\<lambda>(now, n, r). newToolCall now n r) (drop (length ?cs - MAX_RECENT_CALLS) ?cs))"
    by blast
  then have "recentToolCalls (trackToolCalls ?cs ?a) =
          rev (map (\<lambda>i. \<lparr> tool = ''bus_arrival'', timestamp = replicate i (CHR ''x''),
                           clientIp = ''unknown'', userAgent = ''unknown'' \<rparr>) [1..<101])"
    by (simp only: d map_map comp_def prod.case n)
  with h l show ?thesis by blast
qed

section \<open>Sanitised keys\<close>










lemma analytics_saveToFirebase: "analytics (snd (saveToFirebase env a s)) = analytics s"
  by (simp add: saveToFirebase_def)

lemma analytics_saveAnalytics: "analytics (saveAnalytics env s) = analytics s"
  by (simp add: saveAnalytics_def analytics_saveToFirebase)



section \<open>Import\<close>
















lemma additiveOn_Nil: "additiveOn m []"
  by (simp add: additiveOn_def)





lemma importInto_frame:
  "serverStartTime (importInto d a) = serverStartTime a"
  "requestsByEndpoint (importInto d a) = requestsByEndpoint a"
  "clientsByIp (importInto d a) = clientsByIp a"
  "clientsByUserAgent (importInto d a) = clientsByUserAgent a"
  "hourlyRequests (importInto d a) = hourlyRequests a"
  "recentToolCalls (importInto d a) = recentToolCalls a"
  by (simp_all add: importInto_def Let_def split: option.splits)

lemma analytics_analyticsImport:
  "analytics (snd (analyticsImport env req s)) =
     (case reqBody req of None \<Rightarrow> analytics s | Some d \<Rightarrow> importInto d (analytics s))"
  by (simp add: analyticsImport_def Let_def analytics_saveAnalytics split: option.splits)

text \<open>
  C10. Whatever the body of \<open>POST /analytics/import\<close> is, and whether or not it is
  accepted, \<open>serverStartTime\<close>, \<open>requestsByEndpoint\<close>, \<open>clientsByIp\<close>,
  \<open>clientsByUserAgent\<close>, \<open>hourlyRequests\<close> and \<open>recentToolCalls\<close> of the in-memory
  analytics are after the request what they were before it, also when the body has
  values for them.
\<close>

theorem import_frame:
  "serverStartTime (analytics (snd (analyticsImport env req s))) = serverStartTime (analytics s) \<and>
   requestsByEndpoint (analytics (snd (analyticsImport env req s))) = requestsByEndpoint (analytics s) \<and>
   clientsByIp (analytics (snd (analyticsImport env req s))) = clientsByIp (analytics s) \<and>
   clientsByUserAgent (analytics (snd (analyticsImport env req s))) = clientsByUserAgent (analytics s) \<and>
   hourlyRequests (analytics (snd (analyticsImport env req s))) = hourlyRequests (analytics s) \<and>
   recentToolCalls (analytics (snd (analyticsImport env req s))) = recentToolCalls (analytics s)"
  by (cases "reqBody req") (simp_all add: analytics_analyticsImport importInto_frame)

theorem import_frame_witness:
  "fst (analyticsImport \<lparr> fsWritable = True, remoteWritable = False, dateNow = 7 \<rparr>
     \<lparr> reqMethod = ''POST'', queryApiKey = None, hdrSessionId = None, hdrForwardedFor = None,
       hdrUserAgent = None, reqIp = None,
       reqBody = Some \<lparr> p_serverStartTime = Some ''2020-01-01T00:00:00.000Z'',
         p_totalRequests = Some 5, p_totalToolCalls = Some 2,
         p_requestsByMethod = Some [(''GET'', Count 5)], p_requestsByEndpoint = Some [(''/mcp'', Count 5)],
         p_toolCalls = Some [(''bus_arrival'', Count 2)],
         p_recentToolCalls = Some [\<lparr> tool = ''bus_arrival'', timestamp = ''2020-01-01T00:00:01.000Z'',
                                     clientIp = ''10.0.0.1'', userAgent = ''curl'' \<rparr>],
         p_clientsByIp = Some [(''10.0.0.1'', Count 5)], p_clientsByUserAgent = Some [(''curl'', Count 5)],
         p_hourlyRequests = Some [(''2020-01-01T00'', Count 5)] \<rparr> \<rparr>
     \<lparr> analytics = initialAnalytics ''2024-01-01T00:00:00.000Z'',
       firebase = \<lparr> firebaseEnabled = False, analyticsRefSet = False \<rparr>,
       diskCopy = None, remoteCopy = None \<rparr>) = ImportOk 5 2 \<and>
   analytics (snd (analyticsImport \<lparr> fsWritable = True, remoteWritable = False, dateNow = 7 \<rparr>
     \<lparr> reqMethod = ''POST'', queryApiKey = None, hdrSessionId = None, hdrForwardedFor = None,
       hdrUserAgent = None, reqIp = None,
       reqBody = Some \<lparr> p_serverStartTime = Some ''2020-01-01T00:00:00.000Z'',
         p_totalRequests = Some 5, p_totalToolCalls = Some 2,
         p_requestsByMethod = Some [(''GET'', Count 5)], p_requestsByEndpoint = Some [(''/mcp'', Count 5)],
         p_toolCalls = Some [(''bus_arrival'', Count 2)],
         p_recentToolCalls = Some [\<lparr> tool = ''bus_arrival'', timestamp = ''2020-01-01T00:00:01.000Z'',
                                     clientIp = ''10.0.0.1'', userAgent = ''curl'' \<rparr>],
         p_clientsByIp = Some [(''10.0.0.1'', Count 5)], p_clientsByUserAgent = Some [(''curl'', Count 5)],
         p_hourlyRequests = Some [(''2020-01-01T00'', Count 5)] \<rparr> \<rparr>
     \<lparr> analytics = initialAnalytics ''2024-01-01T00:00:00.000Z'',
       firebase = \<lparr> firebaseEnabled = False, analyticsRefSet = False \<rparr>,
       diskCopy = None, remoteCopy = None \<rparr>)) =
     \<lparr> serverStartTime = ''2024-01-01T00:00:00.000Z'', totalRequests = 5, totalToolCalls = 2,
       requestsByMethod = [(''GET'', Count 5)], requestsByEndpoint = [], toolCalls = [(''bus_arrival'', Count 2)],
       recentToolCalls = [], clientsByIp = [], clientsByUserAgent = [], hourlyRequests = [] \<rparr>"
proof -
  let ?e = "\<lparr> fsWritable = True, remoteWritable = False, dateNow = 7 \<rparr>"
  let ?d = "\<lparr> p_serverStartTime = Some ''2020-01-01T00:00:00.000Z'',
         p_totalRequests = Some 5, p_totalToolCalls = Some 2,
         p_requestsByMethod = Some [(''GET'', Count 5)], p_requestsByEndpoint = Some [(''/mcp'', Count 5)],
         p_toolCalls = Some [(''bus_arrival'', Count 2)],
         p_recentToolCalls = Some [\<lparr> tool = ''bus_arrival'', timestamp = ''2020-01-01T00:00:01.000Z'',
                                     clientIp = ''10.0.0.1'', userAgent = ''curl'' \<rparr>],
         p_clientsByIp = Some [(''10.0.0.1'', Count 5)], p_clientsByUserAgent = Some [(''curl'', Count 5)],
         p_hourlyRequests = Some [(''2020-01-01T00'', Count 5)] \<rparr>"
  let ?r = "\<lparr> reqMethod = ''POST'', queryApiKey = None, hdrSessionId = None, hdrForwardedFor = None,
       hdrUserAgent = None, reqIp = None, reqBody = Some ?d \<rparr>"
  let ?s = "\<lparr> analytics = initialAnalytics ''2024-01-01T00:00:00.000Z'',
       firebase = \<lparr> firebaseEnabled = False, analyticsRefSet = False \<rparr>,
       diskCopy = None, remoteCopy = None \<rparr>"
  let ?a' = "analytics (snd (analyticsImport ?e ?r ?s))"
  have changed: "totalRequests ?a' = 5" "totalToolCalls ?a' = 2"
      "requestsByMethod ?a' = [(''GET'', Count 5)]" "toolCalls ?a' = [(''bus_arrival'', Count 2)]"
    by (simp_all add: analyticsImport_def saveAnalytics_def saveToFirebase_def importInto_def
          Let_def mergeCounts_def orZero_def initialAnalytics_def setProperty_def getProperty_def
          inheritedNames_def jsAdd_def roundDouble_def)
  have resp: "fst (analyticsImport ?e ?r ?s) = ImportOk 5 2"
    by (simp add: analyticsImport_def saveAnalytics_def saveToFirebase_def importInto_def
          Let_def mergeCounts_def orZero_def initialAnalytics_def setProperty_def getProperty_def
          inheritedNames_def jsAdd_def roundDouble_def)
  from import_frame [of ?e ?r ?s]
  have frame: "serverStartTime ?a' = ''2024-01-01T00:00:00.000Z''" "requestsByEndpoint ?a' = []"
      "clientsByIp ?a' = []" "clientsByUserAgent ?a' = []" "hourlyRequests ?a' = []"
      "recentToolCalls ?a' = []"
    by (simp_all add: initialAnalytics_def)
  have "?a' = \<lparr> serverStartTime = ''2024-01-01T00:00:00.000Z'', totalRequests = 5, totalToolCalls = 2,
       requestsByMethod = [(''GET'', Count 5)], requestsByEndpoint = [], toolCalls = [(''bus_arrival'', Count 2)],
       recentToolCalls = [], clientsByIp = [], clientsByUserAgent = [], hourlyRequests = [] \<rparr>"
    using changed frame by (intro AnalyticsData.equality) simp_all
  with resp show ?thesis by blast
qed




section \<open>Rehydration at startup\<close>

lemma loadFromFirebase_spec:
  "loadFromFirebase (initializeFirebase cred) remote = specRemoteRecord cred remote"
  by (cases cred; cases remote)
     (simp_all add: loadFromFirebase_def initializeFirebase_def specRemoteRecord_def
        split: option.splits)

lemma loadAnalytics_spec:
  "loadAnalytics (initializeFirebase cred) remote dirOk file now a =
     Inr (case specLoad cred remote dirOk file of
            Some d \<Rightarrow> ensureAnalyticsStructure now d
          | None \<Rightarrow> a)"
  by (cases "file")
     (simp_all add: loadAnalytics_def loadAnalyticsTry_def loadFromFirebase_spec specLoad_def
        specLocalRecord_def split: option.splits)

lemma ensureAnalyticsStructure_fields:
  "serverStartTime (ensureAnalyticsStructure now d) =
     (case p_serverStartTime d of None \<Rightarrow> now | Some t \<Rightarrow> if t = [] then now else t)"
  "totalRequests (ensureAnalyticsStructure now d) = (case p_totalRequests d of None \<Rightarrow> 0 | Some n \<Rightarrow> n)"
  "totalToolCalls (ensureAnalyticsStructure now d) = (case p_totalToolCalls d of None \<Rightarrow> 0 | Some n \<Rightarrow> n)"
  "requestsByMethod (ensureAnalyticsStructure now d) = (case p_requestsByMethod d of None \<Rightarrow> [] | Some m \<Rightarrow> m)"
  "requestsByEndpoint (ensureAnalyticsStructure now d) = (case p_requestsByEndpoint d of None \<Rightarrow> [] | Some m \<Rightarrow> m)"
  "toolCalls (ensureAnalyticsStructure now d) = (case p_toolCalls d of None \<Rightarrow> [] | Some m \<Rightarrow> m)"
  "recentToolCalls (ensureAnalyticsStructure now d) = (case p_recentToolCalls d of None \<Rightarrow> [] | Some m \<Rightarrow> m)"
  "clientsByIp (ensureAnalyticsStructure now d) = (case p_clientsByIp d of None \<Rightarrow> [] | Some m \<Rightarrow> m)"
  "clientsByUserAgent (ensureAnalyticsStructure now d) = (case p_clientsByUserAgent d of None \<Rightarrow> [] | Some m \<Rightarrow> m)"
  "hourlyRequests (ensureAnalyticsStructure now d) = (case p_hourlyRequests d of None \<Rightarrow> [] | Some m \<Rightarrow> m)"
  by (simp_all add: ensureAnalyticsStructure_def orString_def orZero_def orEmpty_def split: option.splits)

text \<open>
  C8. Startup never fails: \<open>startServer\<close>, up to the end of \<open>loadAnalytics\<close>, always yields
  an analytics state. That state comes from the remote record when the credential is
  usable, the store reachable and the record there; otherwise from the local file when
  it is there and readable; otherwise it is the all-zero state whose \<open>serverStartTime\<close>
  is the process start. In a loaded document every missing field gets its zero value:
  counters 0, maps and the history empty, and \<open>serverStartTime\<close> the time of loading.
\<close>

theorem startup_rehydration:
  "startupAnalytics cred remote dirOk file startTime now =
     Inr (case specLoad cred remote dirOk file of
            Some d \<Rightarrow> ensureAnalyticsStructure now d
          | None \<Rightarrow> initialAnalytics startTime) \<and>
   initialAnalytics startTime =
     \<lparr> serverStartTime = startTime, totalRequests = 0, totalToolCalls = 0,
       requestsByMethod = [], requestsByEndpoint = [], toolCalls = [],
       recentToolCalls = [], clientsByIp = [], clientsByUserAgent = [],
       hourlyRequests = [] \<rparr> \<and>
   serverStartTime (ensureAnalyticsStructure now d) =
     (case p_serverStartTime d of None \<Rightarrow> now | Some t \<Rightarrow> if t = [] then now else t) \<and>
   totalRequests (ensureAnalyticsStructure now d) = (case p_totalRequests d of None \<Rightarrow> 0 | Some n \<Rightarrow> n) \<and>
   totalToolCalls (ensureAnalyticsStructure now d) = (case p_totalToolCalls d of None \<Rightarrow> 0 | Some n \<Rightarrow> n) \<and>
   requestsByMethod (ensureAnalyticsStructure now d) = (case p_requestsByMethod d of None \<Rightarrow> [] | Some m \<Rightarrow> m) \<and>
   requestsByEndpoint (ensureAnalyticsStructure now d) = (case p_requestsByEndpoint d of None \<Rightarrow> [] | Some m \<Rightarrow> m) \<and>
   toolCalls (ensureAnalyticsStructure now d) = (case p_toolCalls d of None \<Rightarrow> [] | Some m \<Rightarrow> m) \<and>
   recentToolCalls (ensureAnalyticsStructure now d) = (case p_recentToolCalls d of None \<Rightarrow> [] | Some m \<Rightarrow> m) \<and>
   clientsByIp (ensureAnalyticsStructure now d) = (case p_clientsByIp d of None \<Rightarrow> [] | Some m \<Rightarrow> m) \<and>
   clientsByUserAgent (ensureAnalyticsStructure now d) = (case p_clientsByUserAgent d of None \<Rightarrow> [] | Some m \<Rightarrow> m) \<and>
   hourlyRequests (ensureAnalyticsStructure now d) = (case p_hourlyRequests d of None \<Rightarrow> [] | Some m \<Rightarrow> m)"
proof -
  have "startupAnalytics cred remote dirOk file startTime now =
     Inr (case specLoad cred remote dirOk file of
            Some d \<Rightarrow> ensureAnalyticsStructure now d
          | None \<Rightarrow> initialAnalytics startTime)"
    by (simp add: startupAnalytics_def loadAnalytics_spec)
  then show ?thesis
    by (simp only: ensureAnalyticsStructure_fields initialAnalytics_def simp_thms)
qed

theorem startup_rehydration_witness:
  "startupAnalytics CredentialsAccepted
     (RemoteValue (Some \<lparr> p_serverStartTime = Some ''2023-05-01T00:00:00.000Z'', p_totalRequests = Some 12,
        p_totalToolCalls = None, p_requestsByMethod = Some [(''POST'', Count 12)], p_requestsByEndpoint = None,
        p_toolCalls = None, p_recentToolCalls = None, p_clientsByIp = None,
        p_clientsByUserAgent = None, p_hourlyRequests = None \<rparr>))
     True FileAbsent ''2024-01-01T00:00:00.000Z'' ''2024-01-01T00:00:01.000Z'' =
   Inr \<lparr> serverStartTime = ''2023-05-01T00:00:00.000Z'', totalRequests = 12, totalToolCalls = 0,
         requestsByMethod = [(''POST'', Count 12)], requestsByEndpoint = [], toolCalls = [],
         recentToolCalls = [], clientsByIp = [], clientsByUserAgent = [], hourlyRequests = [] \<rparr> \<and>
   startupAnalytics CredentialsAccepted RemoteUnreachable True
     (FileDocument \<lparr> p_serverStartTime = None, p_totalRequests = Some 3,
        p_totalToolCalls = None, p_requestsByMethod = None, p_requestsByEndpoint = None,
        p_toolCalls = None, p_recentToolCalls = None, p_clientsByIp = None,
        p_clientsByUserAgent = None, p_hourlyRequests = None \<rparr>)
     ''2024-01-01T00:00:00.000Z'' ''2024-01-01T00:00:01.000Z'' =
   Inr \<lparr> serverStartTime = ''2024-01-01T00:00:01.000Z'', totalRequests = 3, totalToolCalls = 0,
         requestsByMethod = [], requestsByEndpoint = [], toolCalls = [],
         recentToolCalls = [], clientsByIp = [], clientsByUserAgent = [], hourlyRequests = [] \<rparr> \<and>
   startupAnalytics CredentialsRejected (RemoteValue None) True FileUnreadable
     ''2024-01-01T00:00:00.000Z'' ''2024-01-01T00:00:01.000Z'' =
   Inr \<lparr> serverStartTime = ''2024-01-01T00:00:00.000Z'', totalRequests = 0, totalToolCalls = 0,
         requestsByMethod = [], requestsByEndpoint = [], toolCalls = [],
         recentToolCalls = [], clientsByIp = [], clientsByUserAgent = [], hourlyRequests = [] \<rparr>"
proof -
  let ?d1 = "\<lparr> p_serverStartTime = Some ''2023-05-01T00:00:00.000Z'', p_totalRequests = Some 12,
        p_totalToolCalls = None, p_requestsByMethod = Some [(''POST'', Count 12)], p_requestsByEndpoint = None,
        p_toolCalls = None, p_recentToolCalls = None, p_clientsByIp = None,
        p_clientsByUserAgent = None, p_hourlyRequests = None \<rparr>"
  let ?d2 = "\<lparr> p_serverStartTime = None, p_totalRequests = Some 3,
        p_totalToolCalls = None, p_requestsByMethod = None, p_requestsByEndpoint = None,
        p_toolCalls = None, p_recentToolCalls = None, p_clientsByIp = None,
        p_clientsByUserAgent = None, p_hourlyRequests = None \<rparr>"
  have ev: "ensureAnalyticsStructure now d =
      \<lparr> serverStartTime = serverStartTime (ensureAnalyticsStructure now d),
        totalRequests = totalRequests (ensureAnalyticsStructure now d),
        totalToolCalls = totalToolCalls (ensureAnalyticsStructure now d),
        requestsByMethod = requestsByMethod (ensureAnalyticsStructure now d),
        requestsByEndpoint = requestsByEndpoint (ensureAnalyticsStructure now d),
        toolCalls = toolCalls (ensureAnalyticsStructure now d),
        recentToolCalls = recentToolCalls (ensureAnalyticsStructure now d),
        clientsByIp = clientsByIp (ensureAnalyticsStructure now d),
        clientsByUserAgent = clientsByUserAgent (ensureAnalyticsStructure now d),
        hourlyRequests = hourlyRequests (ensureAnalyticsStructure now d) \<rparr>" for now d
    by simp
  have l1: "specLoad CredentialsAccepted (RemoteValue (Some ?d1)) True FileAbsent = Some ?d1"
    by (simp add: specLoad_def specRemoteRecord_def)
  have l2: "specLoad CredentialsAccepted RemoteUnreachable True (FileDocument ?d2) = Some ?d2"
    by (simp add: specLoad_def specRemoteRecord_def specLocalRecord_def)
  have l3: "specLoad CredentialsRejected (RemoteValue None) True FileUnreadable = None"
    by (simp add: specLoad_def specRemoteRecord_def specLocalRecord_def)
  note t1 = startup_rehydration [of CredentialsAccepted "RemoteValue (Some ?d1)" True FileAbsent
              "''2024-01-01T00:00:00.000Z''" "''2024-01-01T00:00:01.000Z''" ?d1]
  note t2 = startup_rehydration [of CredentialsAccepted RemoteUnreachable True "FileDocument ?d2"
              "''2024-01-01T00:00:00.000Z''" "''2024-01-01T00:00:01.000Z''" ?d2]
  note t3 = startup_rehydration [of CredentialsRejected "RemoteValue None" True FileUnreadable
              "''2024-01-01T00:00:00.000Z''" "''2024-01-01T00:00:01.000Z''" ?d1]
  have one: "startupAnalytics CredentialsAccepted (RemoteValue (Some ?d1)) True FileAbsent
               ''2024-01-01T00:00:00.000Z'' ''2024-01-01T00:00:01.000Z'' =
             Inr \<lparr> serverStartTime = ''2023-05-01T00:00:00.000Z'', totalRequests = 12, totalToolCalls = 0,
               requestsByMethod = [(''POST'', Count 12)], requestsByEndpoint = [], toolCalls = [],
               recentToolCalls = [], clientsByIp = [], clientsByUserAgent = [], hourlyRequests = [] \<rparr>"
    using t1 by (subst (asm) ev) (simp add: l1)
  have two: "startupAnalytics CredentialsAccepted RemoteUnreachable True (FileDocument ?d2)
               ''2024-01-01T00:00:00.000Z'' ''2024-01-01T00:00:01.000Z'' =
             Inr \<lparr> serverStartTime = ''2024-01-01T00:00:01.000Z'', totalRequests = 3, totalToolCalls = 0,
               requestsByMethod = [], requestsByEndpoint = [], toolCalls = [],
               recentToolCalls = [], clientsByIp = [], clientsByUserAgent = [], hourlyRequests = [] \<rparr>"
    using t2 by (subst (asm) ev) (simp add: l2)
  have three: "startupAnalytics CredentialsRejected (RemoteValue None) True FileUnreadable
               ''2024-01-01T00:00:00.000Z'' ''2024-01-01T00:00:01.000Z'' =
             Inr \<lparr> serverStartTime = ''2024-01-01T00:00:00.000Z'', totalRequests = 0, totalToolCalls = 0,
               requestsByMethod = [], requestsByEndpoint = [], toolCalls = [],
               recentToolCalls = [], clientsByIp = [], clientsByUserAgent = [], hourlyRequests = [] \<rparr>"
    using t3 by (simp add: l3)
  from one two three show ?thesis by blast
qed

section \<open>Tool dispatch\<close>

lemma toolNames:
  "map toolName listTools =
     [''bus_arrival'', ''station_crowding'', ''train_alerts'', ''carpark_availability'',
      ''travel_times'', ''traffic_incidents'', ''station_crowd_forecast'']"
  by (simp add: listTools_def)

lemma dispatch_bus_arrival:
  "dispatch upstream key unknown ''bus_arrival'' args =
     (case args of None \<Rightarrow> ([], Inl TypeError)
      | Some a \<Rightarrow> makeRequest upstream key (baseUrl @ ''v3/BusArrival'') (Some (busArrivalParams a)))"
  by (simp add: dispatch_def)

lemma dispatch_station_crowding:
  "dispatch upstream key unknown ''station_crowding'' args =
     (case args of None \<Rightarrow> ([], Inl TypeError)
      | Some a \<Rightarrow> makeRequest upstream key (baseUrl @ ''PCDRealTime'') (Some (trainLineParams a)))"
  by (simp add: dispatch_def)

lemma dispatch_train_alerts:
  "dispatch upstream key unknown ''train_alerts'' args =
     makeRequest upstream key (baseUrl @ ''TrainServiceAlerts'') None"
  by (simp add: dispatch_def)

lemma dispatch_carpark_availability:
  "dispatch upstream key unknown ''carpark_availability'' args =
     makeRequest upstream key (baseUrl @ ''CarParkAvailabilityv2'') None"
  by (simp add: dispatch_def)

lemma dispatch_travel_times:
  "dispatch upstream key unknown ''travel_times'' args =
     makeRequest upstream key (baseUrl @ ''EstTravelTimes'') None"
  by (simp add: dispatch_def)

lemma dispatch_traffic_incidents:
  "dispatch upstream key unknown ''traffic_incidents'' args =
     makeRequest upstream key (baseUrl @ ''TrafficIncidents'') None"
  by (simp add: dispatch_def)

lemma dispatch_station_crowd_forecast:
  "dispatch upstream key unknown ''station_crowd_forecast'' args =
     (case args of None \<Rightarrow> ([], Inl TypeError)
      | Some a \<Rightarrow> makeRequest upstream key (baseUrl @ ''PCDForecast'') (Some (trainLineParams a)))"
  by (simp add: dispatch_def)

lemma dispatch_unknown:
  "name \<notin> set (map toolName listTools) \<Longrightarrow> dispatch upstream key unknown name args = ([], Inl unknown)"
  by (simp add: toolNames dispatch_def)

lemmas dispatch_known =
  dispatch_bus_arrival dispatch_station_crowding dispatch_train_alerts dispatch_carpark_availability
  dispatch_travel_times dispatch_traffic_incidents dispatch_station_crowd_forecast

lemma known_names:
  "name \<in> set (map toolName listTools) \<Longrightarrow>
   name = ''bus_arrival'' \<or> name = ''station_crowding'' \<or> name = ''train_alerts'' \<or>
   name = ''carpark_availability'' \<or> name = ''travel_times'' \<or> name = ''traffic_incidents'' \<or>
   name = ''station_crowd_forecast''"
  unfolding toolNames by (simp only: list.set insert_iff empty_iff simp_thms)

lemma shape_made:
  "d = makeRequest upstream key u ps \<Longrightarrow>
   fst d = [] \<or> (\<exists>u ps. d = makeRequest upstream key u ps)"
  by blast

lemma shape_none: "fst ([], x) = [] \<or> P"
  by simp

lemma dispatch_shape_known:
  "name \<in> set (map toolName listTools) \<Longrightarrow>
   fst (dispatch upstream key unknown name args) = [] \<or>
   (\<exists>u ps. dispatch upstream key unknown name args = makeRequest upstream key u ps)"
  apply (drule known_names)
  apply (elim disjE; hypsubst)
  apply (cases args; simp only: dispatch_known option.case;
         (rule shape_none | rule shape_made [OF refl]))+
  done

lemma dispatch_shape:
  "fst (dispatch upstream key unknown name args) = [] \<or>
   (\<exists>u ps. dispatch upstream key unknown name args = makeRequest upstream key u ps)"
proof (cases "name \<in> set (map toolName listTools)")
  case False
  then show ?thesis by (simp only: dispatch_unknown fst_conv simp_thms)
next
  case True
  then show ?thesis by (rule dispatch_shape_known)
qed

lemma makeRequest_calls:
  "fst (makeRequest upstream key u ps) = [\<lparr> url = u, params = ps, accountKey = key \<rparr>]"
  by (simp add: makeRequest_def Let_def)

lemma makeRequest_result:
  "snd (makeRequest upstream key u ps) =
     (case upstream \<lparr> url = u, params = ps, accountKey = key \<rparr> of
        Responded t \<Rightarrow> Inr \<lparr> content = [TextContent t], isError = None \<rparr>
      | AxiosError response msg \<Rightarrow>
          Inr \<lparr> content = [TextContent (''LTA API error: '' @ nullish (upstreamMessage response) msg)],
                isError = Some True \<rparr>
      | OtherFailure e \<Rightarrow> Inl e)"
  by (simp add: makeRequest_def Let_def)

lemma dispatch_failure_mapping:
  assumes "rq \<in> set (fst (dispatch upstream key unknown name args))"
  shows "(upstream rq = AxiosError response msg \<longrightarrow>
            snd (dispatch upstream key unknown name args) =
              Inr \<lparr> content = [TextContent (''LTA API error: '' @ nullish (upstreamMessage response) msg)],
                    isError = Some True \<rparr>) \<and>
         (upstream rq = OtherFailure e \<longrightarrow> snd (dispatch upstream key unknown name args) = Inl e)"
proof -
  from dispatch_shape [of upstream key unknown name args] assms
  obtain u ps where d: "dispatch upstream key unknown name args = makeRequest upstream key u ps"
    by auto
  with assms have "rq = \<lparr> url = u, params = ps, accountKey = key \<rparr>"
    by (simp add: makeRequest_calls)
  then show ?thesis
    by (simp add: d makeRequest_result)
qed

text \<open>
  C3 as stated fails in its conclusion: an upstream that could not be reached is an
  axios error too, one without a response, so the handler returns a result with
  \<open>isError = true\<close> for it, as it does for an upstream that answered with status 401;
  nothing is thrown in either case.
\<close>

theorem unreachable_upstream_counterexample:
  "snd (callToolHandler
          (constantUpstream (AxiosError None ''getaddrinfo ENOTFOUND datamall2.mytransport.sg''))
          ''KEY'' ''train_alerts'' None) =
     Inr \<lparr> content = [TextContent ''LTA API error: getaddrinfo ENOTFOUND datamall2.mytransport.sg''],
           isError = Some True \<rparr> \<and>
   snd (callToolHandler
          (constantUpstream
             (AxiosError (Some \<lparr> responseStatus = 401, responseMessage = Some ''Invalid AccountKey'' \<rparr>)
                ''Request failed with status code 401''))
          ''KEY'' ''train_alerts'' None) =
     Inr \<lparr> content = [TextContent ''LTA API error: Invalid AccountKey''], isError = Some True \<rparr>"
  by (simp add: callToolHandler_def dispatch_train_alerts makeRequest_def constantUpstream_def
        nullish_def upstreamMessage_def)

text \<open>
  C3 (amended). In both servers, when the upstream GET of a tool invocation fails with
  an error that axios recognises, whether the upstream answered with an error status or
  no answer came at all, the handler returns a result with \<open>isError = true\<close> whose text
  is \<open>LTA API error: \<close> followed by the upstream's \<open>Message\<close>, or by the error's own
  message when there is no response or the response has no \<open>Message\<close>; it does not
  throw. Only when the GET fails with an error that is not an axios error does the
  handler throw that error.
\<close>

theorem upstream_failure_mapping:
  assumes "handler = callToolHandler \<or> handler = stdioCallToolHandler"
    and "rq \<in> set (fst (handler upstream ltaApiKey name args))"
  shows "(upstream rq = AxiosError response msg \<longrightarrow>
            snd (handler upstream ltaApiKey name args) =
              Inr \<lparr> content = [TextContent (''LTA API error: '' @
                       (case response of
                          None \<Rightarrow> msg
                        | Some r \<Rightarrow> (case responseMessage r of None \<Rightarrow> msg | Some m \<Rightarrow> m)))],
                    isError = Some True \<rparr>) \<and>
         (upstream rq = OtherFailure e \<longrightarrow> snd (handler upstream ltaApiKey name args) = Inl e)"
proof -
  have n: "nullish (upstreamMessage response) msg =
             (case response of
                None \<Rightarrow> msg
              | Some r \<Rightarrow> (case responseMessage r of None \<Rightarrow> msg | Some m \<Rightarrow> m))"
    by (simp add: nullish_def upstreamMessage_def split: option.splits)
  from assms(1) show ?thesis
  proof
    assume h: "handler = callToolHandler"
    with assms(2) have "rq \<in> set (fst (dispatch upstream ltaApiKey (Error (''Unknown tool: '' @ name)) name args))"
      by (simp add: callToolHandler_def)
    from dispatch_failure_mapping [OF this, of response msg e] show ?thesis
      by (simp only: h callToolHandler_def n)
  next
    assume h: "handler = stdioCallToolHandler"
    with assms(2) have "rq \<in> set (fst (dispatch upstream ltaApiKey (McpError (''Unknown tool: '' @ name)) name args))"
      by (simp add: stdioCallToolHandler_def)
    from dispatch_failure_mapping [OF this, of response msg e] show ?thesis
      by (simp only: h stdioCallToolHandler_def n)
  qed
qed

theorem upstream_failure_mapping_witness:
  "snd (callToolHandler
          (constantUpstream
             (AxiosError (Some \<lparr> responseStatus = 401, responseMessage = Some ''Invalid AccountKey'' \<rparr>)
                ''Request failed with status code 401''))
          ''KEY'' ''bus_arrival'' (Some [(''busStopCode'', JStr ''83139'')])) =
     Inr \<lparr> content = [TextContent ''LTA API error: Invalid AccountKey''], isError = Some True \<rparr> \<and>
   snd (stdioCallToolHandler
          (constantUpstream (AxiosError None ''timeout of 1000ms exceeded''))
          ''KEY'' ''train_alerts'' None) =
     Inr \<lparr> content = [TextContent ''LTA API error: timeout of 1000ms exceeded''], isError = Some True \<rparr> \<and>
   snd (callToolHandler
          (constantUpstream
             (AxiosError (Some \<lparr> responseStatus = 500, responseMessage = None \<rparr>)
                ''Request failed with status code 500''))
          ''KEY'' ''train_alerts'' None) =
     Inr \<lparr> content = [TextContent ''LTA API error: Request failed with status code 500''],
           isError = Some True \<rparr> \<and>
   snd (callToolHandler
          (constantUpstream (OtherFailure (Error ''unexpected'')))
          ''KEY'' ''train_alerts'' None) = Inl (Error ''unexpected'')"
proof -
  let ?rq1 = "\<lparr> url = baseUrl @ ''v3/BusArrival'',
                 params = Some [(''BusStopCode'', Some (JStr ''83139''))], accountKey = ''KEY'' \<rparr>"
  let ?rq2 = "\<lparr> url = baseUrl @ ''TrainServiceAlerts'', params = None, accountKey = ''KEY'' \<rparr>"
  let ?u1 = "constantUpstream
               (AxiosError (Some \<lparr> responseStatus = 401, responseMessage = Some ''Invalid AccountKey'' \<rparr>)
                  ''Request failed with status code 401'')"
  let ?u2 = "constantUpstream (AxiosError None ''timeout of 1000ms exceeded'')"
  let ?u3 = "constantUpstream (OtherFailure (Error ''unexpected''))"
  let ?u4 = "constantUpstream
               (AxiosError (Some \<lparr> responseStatus = 500, responseMessage = None \<rparr>)
                  ''Request failed with status code 500'')"
  have m1: "?rq1 \<in> set (fst (callToolHandler ?u1 ''KEY'' ''bus_arrival'' (Some [(''busStopCode'', JStr ''83139'')])))"
    by (simp add: callToolHandler_def dispatch_bus_arrival makeRequest_calls busArrivalParams_def property_def)
  have m2: "?rq2 \<in> set (fst (stdioCallToolHandler ?u2 ''KEY'' ''train_alerts'' None))"
    by (simp add: stdioCallToolHandler_def dispatch_train_alerts makeRequest_calls)
  have m3: "?rq2 \<in> set (fst (callToolHandler ?u3 ''KEY'' ''train_alerts'' None))"
    by (simp add: callToolHandler_def dispatch_train_alerts makeRequest_calls)
  have m4: "?rq2 \<in> set (fst (callToolHandler ?u4 ''KEY'' ''train_alerts'' None))"
    by (simp add: callToolHandler_def dispatch_train_alerts makeRequest_calls)
  have e1: "?u1 ?rq1 = AxiosError (Some \<lparr> responseStatus = 401, responseMessage = Some ''Invalid AccountKey'' \<rparr>)
                         ''Request failed with status code 401''"
    and e2: "?u2 ?rq2 = AxiosError None ''timeout of 1000ms exceeded''"
    and e3: "?u3 ?rq2 = OtherFailure (Error ''unexpected'')"
    and e4: "?u4 ?rq2 = AxiosError (Some \<lparr> responseStatus = 500, responseMessage = None \<rparr>)
                         ''Request failed with status code 500''"
    by (simp_all add: constantUpstream_def)
  have one: "snd (callToolHandler ?u1 ''KEY'' ''bus_arrival'' (Some [(''busStopCode'', JStr ''83139'')])) =
     Inr \<lparr> content = [TextContent ''LTA API error: Invalid AccountKey''], isError = Some True \<rparr>"
    using upstream_failure_mapping [OF disjI1 [OF refl] m1, THEN conjunct1, rule_format, OF e1]
    by simp
  have two: "snd (stdioCallToolHandler ?u2 ''KEY'' ''train_alerts'' None) =
     Inr \<lparr> content = [TextContent ''LTA API error: timeout of 1000ms exceeded''], isError = Some True \<rparr>"
    using upstream_failure_mapping [OF disjI2 [OF refl] m2, THEN conjunct1, rule_format, OF e2]
    by simp
  have three: "snd (callToolHandler ?u3 ''KEY'' ''train_alerts'' None) = Inl (Error ''unexpected'')"
    using upstream_failure_mapping [OF disjI1 [OF refl] m3, THEN conjunct2, rule_format, OF e3]
    by simp
  have four: "snd (callToolHandler ?u4 ''KEY'' ''train_alerts'' None) =
     Inr \<lparr> content = [TextContent ''LTA API error: Request failed with status code 500''],
           isError = Some True \<rparr>"
    using upstream_failure_mapping [OF disjI1 [OF refl] m4, THEN conjunct1, rule_format, OF e4]
    by simp
  from one two four three show ?thesis by (intro conjI)
qed

section \<open>The /mcp endpoint\<close>

lemma analytics_mcpEndpoint:
  "analytics (snd (snd (mcpEndpoint defaultKey upstream now freshId req s))) =
     trackRequest now req ''/mcp'' (analytics s)"
  by (simp add: mcpEndpoint_def Let_def split: option.splits prod.splits)

lemma trackRequest_tool_fields:
  "totalToolCalls (trackRequest now req endpoint a) = totalToolCalls a"
  "toolCalls (trackRequest now req endpoint a) = toolCalls a"
  "recentToolCalls (trackRequest now req endpoint a) = recentToolCalls a"
  by (simp_all add: trackRequest_def)

lemma scenarioSession_eval:
  "transports scenarioSession = [(''session-1'', \<lparr> boundApiKey = ''DEFAULT-KEY'', closeTarget = None, closed = False \<rparr>)]"
  by (simp add: scenarioSession_def mcpEndpoint_def Let_def initializeRequest_def freshServer_def
        getApiKey_def orString_def lookupSession_def handleRequest_def)

text \<open>
  C1 fails on the code: the \<open>CallToolRequestSchema\<close> handler never calls
  \<open>trackToolCall\<close>. In the scenario the invocation of \<open>bus_arrival\<close> is answered with
  the upstream's text, one upstream call has been made, and \<open>totalToolCalls\<close>, the
  counter of \<open>bus_arrival\<close> and \<open>recentToolCalls\<close> are what they were before it.
\<close>

theorem bus_arrival_scenario_not_recorded:
  "fst scenarioBusArrival = ToolReturned \<lparr> content = [TextContent servicesText], isError = None \<rparr> \<and>
   fst (snd scenarioBusArrival) =
     [\<lparr> url = ''https://datamall2.mytransport.sg/ltaodataservice/v3/BusArrival'',
        params = Some [(''BusStopCode'', Some (JStr ''83139''))], accountKey = ''DEFAULT-KEY'' \<rparr>] \<and>
   totalToolCalls (analytics (snd (snd scenarioBusArrival))) = totalToolCalls (analytics scenarioSession) \<and>
   countOf (toolCalls (analytics (snd (snd scenarioBusArrival)))) ''bus_arrival'' =
     countOf (toolCalls (analytics scenarioSession)) ''bus_arrival'' \<and>
   recentToolCalls (analytics (snd (snd scenarioBusArrival))) = recentToolCalls (analytics scenarioSession) \<and>
   totalToolCalls (analytics (snd (snd scenarioBusArrival))) = 0 \<and>
   countOf (toolCalls (analytics (snd (snd scenarioBusArrival)))) ''bus_arrival'' = 0 \<and>
   recentToolCalls (analytics (snd (snd scenarioBusArrival))) = []"
proof -
  have run: "fst scenarioBusArrival = ToolReturned \<lparr> content = [TextContent servicesText], isError = None \<rparr>"
    "fst (snd scenarioBusArrival) =
     [\<lparr> url = ''https://datamall2.mytransport.sg/ltaodataservice/v3/BusArrival'',
        params = Some [(''BusStopCode'', Some (JStr ''83139''))], accountKey = ''DEFAULT-KEY'' \<rparr>]"
    by (simp_all add: scenarioBusArrival_def mcpEndpoint_def Let_def busArrivalRequest_def
          scenarioSession_eval getApiKey_def orString_def lookupSession_def handleRequest_def
          callToolHandler_def dispatch_bus_arrival makeRequest_def busArrivalParams_def property_def
          constantUpstream_def servicesResponse_def baseUrl_def)
  have before: "totalToolCalls (analytics scenarioSession) = 0" "toolCalls (analytics scenarioSession) = []"
    "recentToolCalls (analytics scenarioSession) = []"
    by (simp_all add: scenarioSession_def analytics_mcpEndpoint trackRequest_tool_fields
          freshServer_def initialAnalytics_def)
  have after: "totalToolCalls (analytics (snd (snd scenarioBusArrival))) = totalToolCalls (analytics scenarioSession)"
    "toolCalls (analytics (snd (snd scenarioBusArrival))) = toolCalls (analytics scenarioSession)"
    "recentToolCalls (analytics (snd (snd scenarioBusArrival))) = recentToolCalls (analytics scenarioSession)"
    by (simp_all add: scenarioBusArrival_def analytics_mcpEndpoint trackRequest_tool_fields)
  show ?thesis
    by (simp add: run after before countOf_def orZero_def)
qed

text \<open>
  C2 as stated fails: \<open>ZZZ\<close> is not in the enumeration that \<open>station_crowding\<close>
  declares for \<open>trainLine\<close>, and the handler makes the upstream call with it and
  returns the upstream's answer.
\<close>

theorem station_crowding_unvalidated_counterexample:
  "describe ''station_crowding'' =
     Some \<lparr> toolName = ''station_crowding'',
            properties = [\<lparr> paramName = ''trainLine'', allowedValues = Some trainLineEnum \<rparr>],
            required = [''trainLine''] \<rparr> \<and>
   \<not> specParametersValid
       \<lparr> toolName = ''station_crowding'',
         properties = [\<lparr> paramName = ''trainLine'', allowedValues = Some trainLineEnum \<rparr>],
         required = [''trainLine''] \<rparr>
       [(''trainLine'', JStr ''ZZZ'')] \<and>
   callToolHandler (constantUpstream (Responded ''[]'')) ''KEY'' ''station_crowding''
       (Some [(''trainLine'', JStr ''ZZZ'')]) =
     ([\<lparr> url = ''https://datamall2.mytransport.sg/ltaodataservice/PCDRealTime'',
         params = Some [(''TrainLine'', Some (JStr ''ZZZ''))], accountKey = ''KEY'' \<rparr>],
      Inr \<lparr> content = [TextContent ''[]''], isError = None \<rparr>)"
proof -
  have d: "describe ''station_crowding'' =
     Some \<lparr> toolName = ''station_crowding'',
            properties = [\<lparr> paramName = ''trainLine'', allowedValues = Some trainLineEnum \<rparr>],
            required = [''trainLine''] \<rparr>"
    by (simp add: describe_def listTools_def)
  have v: "\<not> specParametersValid
       \<lparr> toolName = ''station_crowding'',
         properties = [\<lparr> paramName = ''trainLine'', allowedValues = Some trainLineEnum \<rparr>],
         required = [''trainLine''] \<rparr>
       [(''trainLine'', JStr ''ZZZ'')]"
    by (simp add: specParametersValid_def property_def trainLineEnum_def)
  have c: "callToolHandler (constantUpstream (Responded ''[]'')) ''KEY'' ''station_crowding''
       (Some [(''trainLine'', JStr ''ZZZ'')]) =
     ([\<lparr> url = ''https://datamall2.mytransport.sg/ltaodataservice/PCDRealTime'',
         params = Some [(''TrainLine'', Some (JStr ''ZZZ''))], accountKey = ''KEY'' \<rparr>],
      Inr \<lparr> content = [TextContent ''[]''], isError = None \<rparr>)"
    by (simp add: callToolHandler_def dispatch_station_crowding makeRequest_def trainLineParams_def
          property_def constantUpstream_def baseUrl_def)
  from d v c show ?thesis by (intro conjI)
qed

text \<open>
  C2 (amended). The handlers validate nothing. For a registered tool invoked with an
  arguments object, whether or not the arguments satisfy the declared schema, each
  handler makes exactly one upstream call and returns what \<open>makeRequest\<close> makes of its
  outcome; \<open>station_crowding\<close>, \<open>station_crowd_forecast\<close> and \<open>bus_arrival\<close> pass on the
  supplied values, a missing one as \<open>undefined\<close>.
\<close>

theorem no_parameter_validation:
  assumes "name \<in> set (map toolName listTools)"
  shows "(\<exists>u ps. callToolHandler upstream key name (Some a) = makeRequest upstream key u ps \<and>
                  stdioCallToolHandler upstream key name (Some a) = makeRequest upstream key u ps \<and>
                  fst (makeRequest upstream key u ps) = [\<lparr> url = u, params = ps, accountKey = key \<rparr>]) \<and>
         callToolHandler upstream key ''station_crowding'' (Some a) =
           makeRequest upstream key (baseUrl @ ''PCDRealTime'') (Some [(''TrainLine'', property a ''trainLine'')]) \<and>
         callToolHandler upstream key ''station_crowd_forecast'' (Some a) =
           makeRequest upstream key (baseUrl @ ''PCDForecast'') (Some [(''TrainLine'', property a ''trainLine'')]) \<and>
         callToolHandler upstream key ''bus_arrival'' (Some a) =
           makeRequest upstream key (baseUrl @ ''v3/BusArrival'')
             (Some ((''BusStopCode'', property a ''busStopCode'') #
                    (if truthy (property a ''serviceNo'') then [(''ServiceNo'', property a ''serviceNo'')] else [])))"
proof -
  have general: "\<exists>u ps. callToolHandler upstream key name (Some a) = makeRequest upstream key u ps \<and>
                  stdioCallToolHandler upstream key name (Some a) = makeRequest upstream key u ps \<and>
                  fst (makeRequest upstream key u ps) = [\<lparr> url = u, params = ps, accountKey = key \<rparr>]"
    using known_names [OF assms]
    unfolding callToolHandler_def stdioCallToolHandler_def
    by (elim disjE; hypsubst; simp only: dispatch_known option.case makeRequest_calls; blast)
  have crowd: "callToolHandler upstream key ''station_crowding'' (Some a) =
           makeRequest upstream key (baseUrl @ ''PCDRealTime'') (Some [(''TrainLine'', property a ''trainLine'')])"
    by (simp only: callToolHandler_def dispatch_station_crowding option.case trainLineParams_def)
  have forecast: "callToolHandler upstream key ''station_crowd_forecast'' (Some a) =
           makeRequest upstream key (baseUrl @ ''PCDForecast'') (Some [(''TrainLine'', property a ''trainLine'')])"
    by (simp only: callToolHandler_def dispatch_station_crowd_forecast option.case trainLineParams_def)
  have bus: "callToolHandler upstream key ''bus_arrival'' (Some a) =
           makeRequest upstream key (baseUrl @ ''v3/BusArrival'')
             (Some ((''BusStopCode'', property a ''busStopCode'') #
                    (if truthy (property a ''serviceNo'') then [(''ServiceNo'', property a ''serviceNo'')] else [])))"
    by (simp only: callToolHandler_def dispatch_bus_arrival option.case busArrivalParams_def)
  from general crowd forecast bus show ?thesis by (intro conjI)
qed

theorem no_parameter_validation_witness:
  "''station_crowding'' \<in> set (map toolName listTools) \<and>
   fst (callToolHandler (constantUpstream (Responded ''[]'')) ''KEY'' ''station_crowding''
          (Some [(''trainLine'', JStr ''ZZZ'')])) =
     [\<lparr> url = baseUrl @ ''PCDRealTime'', params = Some [(''TrainLine'', Some (JStr ''ZZZ''))],
        accountKey = ''KEY'' \<rparr>] \<and>
   fst (callToolHandler (constantUpstream (Responded ''[]'')) ''KEY'' ''station_crowding'' (Some [])) =
     [\<lparr> url = baseUrl @ ''PCDRealTime'', params = Some [(''TrainLine'', None)], accountKey = ''KEY'' \<rparr>]"
proof -
  have mem: "''station_crowding'' \<in> set (map toolName listTools)"
    by (simp add: toolNames)
  note t1 = no_parameter_validation [OF mem, where upstream = "constantUpstream (Responded ''[]'')"
              and key = "''KEY''" and a = "[(''trainLine'', JStr ''ZZZ'')]"]
  note t2 = no_parameter_validation [OF mem, where upstream = "constantUpstream (Responded ''[]'')"
              and key = "''KEY''" and a = "[]"]
  from t1 have one: "fst (callToolHandler (constantUpstream (Responded ''[]'')) ''KEY'' ''station_crowding''
          (Some [(''trainLine'', JStr ''ZZZ'')])) =
     [\<lparr> url = baseUrl @ ''PCDRealTime'', params = Some [(''TrainLine'', Some (JStr ''ZZZ''))],
        accountKey = ''KEY'' \<rparr>]"
    by (simp add: makeRequest_calls property_def)
  from t2 have two: "fst (callToolHandler (constantUpstream (Responded ''[]'')) ''KEY'' ''station_crowding'' (Some [])) =
     [\<lparr> url = baseUrl @ ''PCDRealTime'', params = Some [(''TrainLine'', None)], accountKey = ''KEY'' \<rparr>]"
    by (simp add: makeRequest_calls property_def)
  from mem one two show ?thesis by (intro conjI)
qed
section \<open>Sessions and credentials\<close>

lemma handler_calls_key:
  "rq \<in> set (fst (callToolHandler upstream key name args)) \<Longrightarrow> accountKey rq = key"
  using dispatch_shape [of upstream key "Error (''Unknown tool: '' @ name)" name args]
  unfolding callToolHandler_def
  by (elim disjE exE) (simp_all add: makeRequest_calls)

lemma handleRequest_calls_key:
  assumes "rq \<in> set (fst (snd (handleRequest upstream freshId established t req ts)))"
  shows "accountKey rq = boundApiKey t"
proof (cases "closed t \<or> reqMethod req \<noteq> ''POST''")
  case True
  with assms show ?thesis
    by (auto simp add: handleRequest_def split: if_splits)
next
  case False
  hence live: "\<not> closed t" and post: "reqMethod req = ''POST''"
    by simp_all
  show ?thesis
  proof (cases "reqBody req")
    case (CallToolRequest name args)
    show ?thesis
    proof (cases established)
      case False
      with assms live post CallToolRequest show ?thesis by (simp add: handleRequest_def)
    next
      case est: True
      obtain calls res where c: "callToolHandler upstream (boundApiKey t) name args = (calls, res)"
        by (cases "callToolHandler upstream (boundApiKey t) name args")
      with assms live post CallToolRequest est have "rq \<in> set calls"
        by (cases res) (simp_all add: handleRequest_def)
      with c handler_calls_key [of rq upstream "boundApiKey t" name args] show ?thesis by simp
    qed
  qed (use assms live post in \<open>simp_all add: handleRequest_def split: if_splits\<close>)
qed

lemma handleRequest_new_session:
  "\<not> closed t \<Longrightarrow>
   fst (snd (handleRequest upstream freshId False t req ts)) = [] \<and>
   (fst (handleRequest upstream freshId False t req ts) = SessionInitialized i \<longrightarrow>
      map_of (snd (snd (handleRequest upstream freshId False t req ts))) i = Some t)"
  by (cases "reqBody req") (simp_all add: handleRequest_def update_conv)



text \<open>
  C6 as stated fails for a request on an existing session: \<open>session-1\<close> was opened
  without \<open>apiKey\<close>, so its handlers hold the default credential; a later invocation
  sent with \<open>apiKey=USER-KEY\<close> resolves to \<open>USER-KEY\<close>, and the upstream call carries
  \<open>DEFAULT-KEY\<close>.
\<close>

theorem session_credential_counterexample:
  "getApiKey ''DEFAULT-KEY'' busArrivalRequestWithKey = ''USER-KEY'' \<and>
   map accountKey (fst (snd (mcpEndpoint ''DEFAULT-KEY'' (constantUpstream servicesResponse)
         ''2024-01-01T00:00:02.000Z'' ''session-2'' busArrivalRequestWithKey scenarioSession))) =
     [''DEFAULT-KEY'']"
  by (simp add: mcpEndpoint_def Let_def busArrivalRequestWithKey_def busArrivalRequest_def
        scenarioSession_eval getApiKey_def orString_def lookupSession_def handleRequest_def
        callToolHandler_def dispatch_bus_arrival makeRequest_def busArrivalParams_def property_def
        constantUpstream_def servicesResponse_def)

text \<open>
  C6 (amended). The credential resolved for a request to \<open>/mcp\<close> is its \<open>apiKey\<close> query
  parameter when present and non-empty, otherwise the process-wide default. When that is
  empty the request is answered with the configuration error (status 500), makes no
  upstream call and leaves the live mapping as it was. Otherwise, a request on an
  existing session makes its upstream calls with the credential that the session's
  handlers hold, and a request that opens a session makes no upstream call and binds
  the new session's handlers to the credential resolved for it.
\<close>

theorem credential_resolution:
  "getApiKey defaultKey req =
     (case queryApiKey req of None \<Rightarrow> defaultKey | Some k \<Rightarrow> if k = [] then defaultKey else k) \<and>
   (getApiKey defaultKey req = [] \<longrightarrow>
      fst (mcpEndpoint defaultKey upstream now freshId req s) = ConfigurationError \<and>
      fst (snd (mcpEndpoint defaultKey upstream now freshId req s)) = [] \<and>
      transports (snd (snd (mcpEndpoint defaultKey upstream now freshId req s))) = transports s) \<and>
   (getApiKey defaultKey req \<noteq> [] \<and> lookupSession (hdrSessionId req) (transports s) = Some t \<longrightarrow>
      (\<forall>rq \<in> set (fst (snd (mcpEndpoint defaultKey upstream now freshId req s))).
         accountKey rq = boundApiKey t)) \<and>
   (getApiKey defaultKey req \<noteq> [] \<and> lookupSession (hdrSessionId req) (transports s) = None \<longrightarrow>
      fst (snd (mcpEndpoint defaultKey upstream now freshId req s)) = [] \<and>
      (fst (mcpEndpoint defaultKey upstream now freshId req s) = SessionInitialized i \<longrightarrow>
         map_of (transports (snd (snd (mcpEndpoint defaultKey upstream now freshId req s)))) i =
           Some \<lparr> boundApiKey = getApiKey defaultKey req, closeTarget = hdrSessionId req,
                  closed = False \<rparr>))"
proof -
  let ?run = "mcpEndpoint defaultKey upstream now freshId req s"
  let ?key = "getApiKey defaultKey req"
  have resolve: "?key = (case queryApiKey req of None \<Rightarrow> defaultKey
                          | Some k \<Rightarrow> if k = [] then defaultKey else k)"
    by (simp add: getApiKey_def orString_def)
  have none: "fst ?run = ConfigurationError \<and> fst (snd ?run) = [] \<and>
              transports (snd (snd ?run)) = transports s" if "?key = []"
    using that by (simp add: mcpEndpoint_def Let_def)
  have existing: "\<forall>rq \<in> set (fst (snd ?run)). accountKey rq = boundApiKey t"
    if k: "?key \<noteq> []" and l: "lookupSession (hdrSessionId req) (transports s) = Some t"
  proof
    fix rq assume rq: "rq \<in> set (fst (snd ?run))"
    let ?h = "handleRequest upstream freshId True t req (transports s)"
    have "fst (snd ?run) = fst (snd ?h)"
      using k l by (simp add: mcpEndpoint_def Let_def split: prod.splits)
    with rq handleRequest_calls_key [of rq upstream freshId True t req "transports s"]
    show "accountKey rq = boundApiKey t" by simp
  qed
  have created: "fst (snd ?run) = [] \<and>
      (fst ?run = SessionInitialized i \<longrightarrow>
         map_of (transports (snd (snd ?run))) i =
           Some \<lparr> boundApiKey = ?key, closeTarget = hdrSessionId req,
                  closed = False \<rparr>)"
    if k: "?key \<noteq> []" and l: "lookupSession (hdrSessionId req) (transports s) = None"
  proof (cases "reqMethod req = ''GET'' \<or> reqMethod req = ''DELETE''")
    case True
    with k l show ?thesis by (simp add: mcpEndpoint_def Let_def)
  next
    case False
    let ?t = "\<lparr> boundApiKey = ?key, closeTarget = hdrSessionId req,
                  closed = False \<rparr>"
    let ?h = "handleRequest upstream freshId False ?t req (transports s)"
    have "fst ?run = fst ?h" "fst (snd ?run) = fst (snd ?h)"
         "transports (snd (snd ?run)) = snd (snd ?h)"
      using k l False by (simp_all add: mcpEndpoint_def Let_def split: prod.splits)
    with handleRequest_new_session [of ?t upstream freshId req "transports s" i]
    show ?thesis by simp
  qed
  from resolve none existing created show ?thesis by blast
qed

theorem credential_resolution_witness:
  "getApiKey [] initializeRequest = [] \<and>
   fst (mcpEndpoint [] (constantUpstream servicesResponse) ''2024-01-01T00:00:01.000Z'' ''session-1''
          initializeRequest (freshServer ''2024-01-01T00:00:00.000Z'')) = ConfigurationError \<and>
   \<lparr> url = baseUrl @ ''v3/BusArrival'', params = Some [(''BusStopCode'', Some (JStr ''83139''))],
     accountKey = ''DEFAULT-KEY'' \<rparr>
     \<in> set (fst (snd (mcpEndpoint ''DEFAULT-KEY'' (constantUpstream servicesResponse)
                ''2024-01-01T00:00:02.000Z'' ''session-2'' busArrivalRequestWithKey scenarioSession))) \<and>
   lookupSession (hdrSessionId busArrivalRequestWithKey) (transports scenarioSession) =
     Some \<lparr> boundApiKey = ''DEFAULT-KEY'', closeTarget = None, closed = False \<rparr> \<and>
   fst (mcpEndpoint ''DEFAULT-KEY'' (constantUpstream servicesResponse) ''2024-01-01T00:00:01.000Z''
          ''session-9'' (initializeRequest\<lparr> queryApiKey := Some ''USER-KEY'' \<rparr>)
          (freshServer ''2024-01-01T00:00:00.000Z'')) = SessionInitialized ''session-9'' \<and>
   map_of (transports (snd (snd (mcpEndpoint ''DEFAULT-KEY'' (constantUpstream servicesResponse)
          ''2024-01-01T00:00:01.000Z'' ''session-9'' (initializeRequest\<lparr> queryApiKey := Some ''USER-KEY'' \<rparr>)
          (freshServer ''2024-01-01T00:00:00.000Z''))))) ''session-9'' =
     Some \<lparr> boundApiKey = ''USER-KEY'', closeTarget = None, closed = False \<rparr>"
proof -
  let ?up = "constantUpstream servicesResponse"
  let ?s0 = "freshServer ''2024-01-01T00:00:00.000Z''"
  let ?t = "\<lparr> boundApiKey = ''DEFAULT-KEY'', closeTarget = None, closed = False \<rparr>"
  let ?rq = "\<lparr> url = baseUrl @ ''v3/BusArrival'', params = Some [(''BusStopCode'', Some (JStr ''83139''))],
               accountKey = ''DEFAULT-KEY'' \<rparr>"
  let ?ini = "initializeRequest\<lparr> queryApiKey := Some ''USER-KEY'' \<rparr>"
  note t1 = credential_resolution [where defaultKey = "[]" and req = initializeRequest and upstream = ?up
              and now = "''2024-01-01T00:00:01.000Z''" and freshId = "''session-1''" and s = ?s0]
  note t2 = credential_resolution [where defaultKey = "''DEFAULT-KEY''" and req = busArrivalRequestWithKey
              and upstream = ?up and now = "''2024-01-01T00:00:02.000Z''" and freshId = "''session-2''"
              and s = scenarioSession and t = ?t]
  note t3 = credential_resolution [where defaultKey = "''DEFAULT-KEY''" and req = ?ini
              and upstream = ?up and now = "''2024-01-01T00:00:01.000Z''" and freshId = "''session-9''"
              and s = ?s0 and i = "''session-9''"]
  have k1: "getApiKey [] initializeRequest = []"
    using t1 by (simp add: initializeRequest_def)
  with t1 have one: "fst (mcpEndpoint [] ?up ''2024-01-01T00:00:01.000Z'' ''session-1''
          initializeRequest ?s0) = ConfigurationError"
    by simp
  have k2: "getApiKey ''DEFAULT-KEY'' busArrivalRequestWithKey \<noteq> []"
    by (simp add: getApiKey_def orString_def busArrivalRequestWithKey_def)
  have l2: "lookupSession (hdrSessionId busArrivalRequestWithKey) (transports scenarioSession) = Some ?t"
    by (simp add: lookupSession_def busArrivalRequestWithKey_def busArrivalRequest_def scenarioSession_eval)
  have m2: "?rq \<in> set (fst (snd (mcpEndpoint ''DEFAULT-KEY'' ?up ''2024-01-01T00:00:02.000Z''
                ''session-2'' busArrivalRequestWithKey scenarioSession)))"
    by (simp add: mcpEndpoint_def Let_def busArrivalRequestWithKey_def busArrivalRequest_def
        scenarioSession_eval getApiKey_def orString_def lookupSession_def handleRequest_def
        callToolHandler_def dispatch_bus_arrival makeRequest_def busArrivalParams_def property_def
        constantUpstream_def servicesResponse_def)
  from t2 k2 l2 m2 have "accountKey ?rq = boundApiKey ?t"
    by simp
  have k3: "getApiKey ''DEFAULT-KEY'' ?ini = ''USER-KEY''"
    using t3 by (simp add: initializeRequest_def)
  have l3: "lookupSession (hdrSessionId ?ini) (transports ?s0) = None"
    by (simp add: lookupSession_def initializeRequest_def)
  have r3: "fst (mcpEndpoint ''DEFAULT-KEY'' ?up ''2024-01-01T00:00:01.000Z'' ''session-9'' ?ini ?s0) =
              SessionInitialized ''session-9''"
    by (simp add: mcpEndpoint_def Let_def initializeRequest_def freshServer_def getApiKey_def
          orString_def lookupSession_def handleRequest_def)
  from t3 k3 l3 r3 have three: "map_of (transports (snd (snd (mcpEndpoint ''DEFAULT-KEY'' ?up
          ''2024-01-01T00:00:01.000Z'' ''session-9'' ?ini ?s0)))) ''session-9'' =
     Some \<lparr> boundApiKey = ''USER-KEY'', closeTarget = None, closed = False \<rparr>"
    by (simp add: initializeRequest_def)
  from k1 one m2 l2 r3 three show ?thesis by (intro conjI)
qed

end
